theory Spec2Isabelle
  imports Main "HOL-Library.Word"
begin

unbundle bit_operations_syntax

section \<open>The GnuTLS adapter of the HTTP client (src/gnutls.c)\<close>

text \<open>
  The file wraps two collaborators it does not define: the TCP transport (\<open>tcp_*\<close>)
  and the GnuTLS library (\<open>gnutls_*\<close>). Both are modelled as an environment: every
  call the adapter makes is appended to a chronological trace, and what the callee
  answers is read from the environment, which may depend on the whole trace so far
  and on the call with its arguments. Nothing is assumed about the answers, so a
  theorem that quantifies over the environment holds for every behaviour of the
  transport and of the library.
\<close>

subsection \<open>Values\<close>

text \<open>Handles of the library (\<open>gnutls_session_t\<close>, \<open>gnutls_x509_crt_t\<close>, the
  certificate list) are pointers: an address, \<open>0\<close> for \<open>NULL\<close>.\<close>

type_synonym ptr = nat

text \<open>
  Modelled from the spec: the error codes are an enumeration of \<open>error.h\<close>, a
  header that is not among the sources verified here. The spec lists \<open>0\<close> for
  success, the six \<open>HTTPS_*\<close> codes this file returns, and "TCP-layer errors
  propagated unchanged": \<open>RC_LOWER n\<close> is the n-th code of the layers below,
  distinct from the codes of this file.
\<close>

datatype rc =
    RC_OK
  | RC_LOWER nat
  | RC_HTTPS_SNI_ERROR
  | RC_HTTPS_INVALID_REQUEST
  | RC_HTTPS_FAILED_CONNECT
  | RC_HTTPS_FAILED_GETTING_CERT
  | RC_HTTPS_SEND_ERROR
  | RC_HTTPS_RECV_ERROR

datatype level = LOG_ERR | LOG_WARNING | LOG_INFO | LOG_DEBUG

text \<open>The arguments of a \<open>printf\<close>-style log line, kept beside its format string.\<close>

datatype arg = ArgS string | ArgI int

datatype close_request = GNUTLS_SHUT_RDWR | GNUTLS_SHUT_WR

datatype x509_fmt = GNUTLS_X509_FMT_DER | GNUTLS_X509_FMT_PEM

text \<open>The fields of \<open>tcp_sock_t\<close> (declared in \<open>tcp.h\<close>) that matter to this file: it
  reads \<open>tcp.ip.socket\<close>; the port is the one \<open>tcp_set_port\<close> configures.\<close>

record tcp_sock =
  ip_socket :: int
  ip_port :: int

text \<open>The client handle \<open>http_t\<close>, with the three members the file uses.\<close>

record http =
  ssl_enabled :: bool
  tcp :: tcp_sock
  ssl :: ptr

subsection \<open>Calls into the collaborators\<close>

text \<open>One constructor for each external function the file calls, with the
  arguments passed by value. A pointer to memory that the callee fills (the
  receive buffer, \<open>*recv_len\<close>, the socket structure) is not an argument here: the
  environment gives the new content of that memory.\<close>

datatype call =
    TcpInit string
  | TcpExit
  | TcpSend string int
  | TcpRecv int
  | TcpSetPort int
  | HttpGetRemoteName
  | Logit level string "arg list"
  | GnutlsInit
  | GnutlsSessionSetPtr ptr string
  | GnutlsSessionGetPtr ptr
  | GnutlsServerNameSet ptr string nat
  | GnutlsPrioritySetDirect ptr string
  | GnutlsCredentialsSet ptr
  | GnutlsTransportSetPtr ptr int
  | GnutlsHandshake ptr
  | GnutlsSessionGetDesc ptr
  | GnutlsFree string
  | GnutlsCertificateGetPeers ptr
  | GnutlsCertificateVerifyPeers2 ptr
  | GnutlsCertificateTypeGet ptr
  | GnutlsX509CrtInit
  | GnutlsX509CrtImport ptr ptr x509_fmt
  | GnutlsX509CrtCheckHostname ptr string
  | GnutlsX509CrtGetDn ptr nat
  | GnutlsX509CrtGetIssuerDn ptr nat
  | GnutlsX509CrtDeinit ptr
  | GnutlsBye ptr close_request
  | GnutlsDeinit ptr
  | GnutlsRecordSend ptr string int
  | GnutlsRecordRecv ptr int int
  | GnutlsStrerror int

fun is_tcp_call :: "call \<Rightarrow> bool" where
  "is_tcp_call (TcpInit _) = True"
| "is_tcp_call TcpExit = True"
| "is_tcp_call (TcpSend _ _) = True"
| "is_tcp_call (TcpRecv _) = True"
| "is_tcp_call (TcpSetPort _) = True"
| "is_tcp_call _ = False"

text \<open>
  The environment. Each field answers a call \<open>c\<close> made after the trace \<open>h\<close>:
  \<^item> \<open>ret_int\<close>: the \<open>int\<close> a GnuTLS function returns;
  \<^item> \<open>ret_tcp\<close>: what a \<open>tcp_*\<close> function returns, \<open>None\<close> for success and \<open>Some n\<close>
    for the n-th error code of the transport;
  \<^item> \<open>out_ptr\<close>: the handle a call returns or stores through a pointer;
  \<^item> \<open>out_uint\<close>: the \<open>unsigned int\<close> a call leaves behind a pointer (the
    verification status, the size of the certificate list);
  \<^item> \<open>out_str\<close>: the string a call returns or leaves in a character buffer;
  \<^item> \<open>out_buf\<close>, \<open>out_len\<close>, \<open>out_tcp\<close>: the content of the caller's receive
    buffer, of \<open>*recv_len\<close> and of the socket structure after the call, from the
    content before it;
  \<^item> \<open>have_session_get_desc\<close>: whether the preprocessor symbol
    \<open>gnutls_session_get_desc\<close> is defined where the file is compiled.
\<close>

record env =
  ret_int :: "call list \<Rightarrow> call \<Rightarrow> int"
  ret_tcp :: "call list \<Rightarrow> call \<Rightarrow> nat option"
  out_ptr :: "call list \<Rightarrow> call \<Rightarrow> ptr"
  out_uint :: "call list \<Rightarrow> call \<Rightarrow> 32 word"
  out_str :: "call list \<Rightarrow> call \<Rightarrow> string"
  out_buf :: "call list \<Rightarrow> call \<Rightarrow> string \<Rightarrow> string"
  out_len :: "call list \<Rightarrow> call \<Rightarrow> int \<Rightarrow> int"
  out_tcp :: "call list \<Rightarrow> call \<Rightarrow> tcp_sock \<Rightarrow> tcp_sock"
  have_session_get_desc :: bool


subsection \<open>Constants of the GnuTLS headers\<close>

text \<open>The values \<open>gnutls.h\<close> gives them: the error codes are negative, the
  certificate status flags are single bits (\<open>1 << 1\<close>, \<open>1 << 5\<close>, \<open>1 << 6\<close>, \<open>1 << 9\<close>,
  \<open>1 << 10\<close>).\<close>

definition GNUTLS_E_AGAIN :: int where "GNUTLS_E_AGAIN = - 28"
definition GNUTLS_E_CERTIFICATE_ERROR :: int where "GNUTLS_E_CERTIFICATE_ERROR = - 43"
definition GNUTLS_E_INVALID_REQUEST :: int where "GNUTLS_E_INVALID_REQUEST = - 50"
definition GNUTLS_E_INTERRUPTED :: int where "GNUTLS_E_INTERRUPTED = - 52"

definition GNUTLS_CRT_X509 :: int where "GNUTLS_CRT_X509 = 1"

definition GNUTLS_CERT_INVALID :: "32 word" where "GNUTLS_CERT_INVALID = push_bit 1 1"
definition GNUTLS_CERT_REVOKED :: "32 word" where "GNUTLS_CERT_REVOKED = push_bit 5 1"
definition GNUTLS_CERT_SIGNER_NOT_FOUND :: "32 word" where
  "GNUTLS_CERT_SIGNER_NOT_FOUND = push_bit 6 1"
definition GNUTLS_CERT_NOT_ACTIVATED :: "32 word" where
  "GNUTLS_CERT_NOT_ACTIVATED = push_bit 9 1"
definition GNUTLS_CERT_EXPIRED :: "32 word" where "GNUTLS_CERT_EXPIRED = push_bit 10 1"

subsection \<open>Making a call\<close>

definition call_void :: "call \<Rightarrow> call list \<Rightarrow> call list" where
  "call_void c h = h @ [c]"

definition call_int :: "env \<Rightarrow> call \<Rightarrow> call list \<Rightarrow> int \<times> call list" where
  "call_int e c h = (ret_int e h c, h @ [c])"

definition call_ptr :: "env \<Rightarrow> call \<Rightarrow> call list \<Rightarrow> ptr \<times> call list" where
  "call_ptr e c h = (out_ptr e h c, h @ [c])"

definition call_str :: "env \<Rightarrow> call \<Rightarrow> call list \<Rightarrow> string \<times> call list" where
  "call_str e c h = (out_str e h c, h @ [c])"

abbreviation logit :: "level \<Rightarrow> string \<Rightarrow> arg list \<Rightarrow> call list \<Rightarrow> call list" where
  "logit l fmt args \<equiv> call_void (Logit l fmt args)"

subsubsection \<open>The TCP transport\<close>

definition tcp_rc :: "nat option \<Rightarrow> rc" where
  "tcp_rc r = (case r of None \<Rightarrow> RC_OK | Some n \<Rightarrow> RC_LOWER n)"

definition tcp_init ::
  "env \<Rightarrow> tcp_sock \<Rightarrow> string \<Rightarrow> call list \<Rightarrow> (rc \<times> tcp_sock) \<times> call list" where
  "tcp_init e t msg h =
     ((tcp_rc (ret_tcp e h (TcpInit msg)), out_tcp e h (TcpInit msg) t), h @ [TcpInit msg])"

definition tcp_exit :: "env \<Rightarrow> tcp_sock \<Rightarrow> call list \<Rightarrow> (rc \<times> tcp_sock) \<times> call list" where
  "tcp_exit e t h = ((tcp_rc (ret_tcp e h TcpExit), out_tcp e h TcpExit t), h @ [TcpExit])"

definition tcp_send ::
  "env \<Rightarrow> tcp_sock \<Rightarrow> string \<Rightarrow> int \<Rightarrow> call list \<Rightarrow> (rc \<times> tcp_sock) \<times> call list" where
  "tcp_send e t buf len h =
     ((tcp_rc (ret_tcp e h (TcpSend buf len)), out_tcp e h (TcpSend buf len) t),
      h @ [TcpSend buf len])"

definition tcp_recv ::
  "env \<Rightarrow> tcp_sock \<Rightarrow> string \<Rightarrow> int \<Rightarrow> int \<Rightarrow> call list \<Rightarrow>
     (rc \<times> tcp_sock \<times> string \<times> int) \<times> call list" where
  "tcp_recv e t buf buf_len recv_len h =
     ((tcp_rc (ret_tcp e h (TcpRecv buf_len)), out_tcp e h (TcpRecv buf_len) t,
       out_buf e h (TcpRecv buf_len) buf, out_len e h (TcpRecv buf_len) recv_len),
      h @ [TcpRecv buf_len])"

text \<open>The file ignores what \<open>tcp_set_port\<close> returns.\<close>

definition tcp_set_port :: "env \<Rightarrow> tcp_sock \<Rightarrow> int \<Rightarrow> call list \<Rightarrow> tcp_sock \<times> call list" where
  "tcp_set_port e t port h = (out_tcp e h (TcpSetPort port) t, h @ [TcpSetPort port])"

abbreviation http_get_remote_name :: "env \<Rightarrow> call list \<Rightarrow> string \<times> call list" where
  "http_get_remote_name e \<equiv> call_str e HttpGetRemoteName"

subsubsection \<open>GnuTLS\<close>

abbreviation gnutls_init :: "env \<Rightarrow> call list \<Rightarrow> ptr \<times> call list" where
  "gnutls_init e \<equiv> call_ptr e GnutlsInit"

abbreviation gnutls_session_set_ptr :: "ptr \<Rightarrow> string \<Rightarrow> call list \<Rightarrow> call list" where
  "gnutls_session_set_ptr s p \<equiv> call_void (GnutlsSessionSetPtr s p)"

abbreviation gnutls_session_get_ptr :: "env \<Rightarrow> ptr \<Rightarrow> call list \<Rightarrow> string \<times> call list" where
  "gnutls_session_get_ptr e s \<equiv> call_str e (GnutlsSessionGetPtr s)"

abbreviation gnutls_server_name_set ::
  "env \<Rightarrow> ptr \<Rightarrow> string \<Rightarrow> nat \<Rightarrow> call list \<Rightarrow> int \<times> call list" where
  "gnutls_server_name_set e s name n \<equiv> call_int e (GnutlsServerNameSet s name n)"

definition gnutls_priority_set_direct ::
  "env \<Rightarrow> ptr \<Rightarrow> string \<Rightarrow> call list \<Rightarrow> (int \<times> string) \<times> call list" where
  "gnutls_priority_set_direct e s prio h =
     ((ret_int e h (GnutlsPrioritySetDirect s prio), out_str e h (GnutlsPrioritySetDirect s prio)),
      h @ [GnutlsPrioritySetDirect s prio])"

abbreviation gnutls_credentials_set :: "ptr \<Rightarrow> call list \<Rightarrow> call list" where
  "gnutls_credentials_set s \<equiv> call_void (GnutlsCredentialsSet s)"

abbreviation gnutls_transport_set_ptr :: "ptr \<Rightarrow> int \<Rightarrow> call list \<Rightarrow> call list" where
  "gnutls_transport_set_ptr s fd \<equiv> call_void (GnutlsTransportSetPtr s fd)"

abbreviation gnutls_handshake :: "env \<Rightarrow> ptr \<Rightarrow> call list \<Rightarrow> int \<times> call list" where
  "gnutls_handshake e s \<equiv> call_int e (GnutlsHandshake s)"

abbreviation gnutls_strerror :: "env \<Rightarrow> int \<Rightarrow> call list \<Rightarrow> string \<times> call list" where
  "gnutls_strerror e r \<equiv> call_str e (GnutlsStrerror r)"

abbreviation gnutls_session_get_desc :: "env \<Rightarrow> ptr \<Rightarrow> call list \<Rightarrow> string \<times> call list" where
  "gnutls_session_get_desc e s \<equiv> call_str e (GnutlsSessionGetDesc s)"

abbreviation gnutls_free :: "string \<Rightarrow> call list \<Rightarrow> call list" where
  "gnutls_free p \<equiv> call_void (GnutlsFree p)"

text \<open>\<open>gnutls_certificate_get_peers\<close> returns the list and stores its size.\<close>

definition gnutls_certificate_get_peers ::
  "env \<Rightarrow> ptr \<Rightarrow> call list \<Rightarrow> (ptr \<times> 32 word) \<times> call list" where
  "gnutls_certificate_get_peers e s h =
     ((out_ptr e h (GnutlsCertificateGetPeers s), out_uint e h (GnutlsCertificateGetPeers s)),
      h @ [GnutlsCertificateGetPeers s])"

text \<open>\<open>gnutls_certificate_verify_peers2\<close> returns a result and stores the status.\<close>

definition gnutls_certificate_verify_peers2 ::
  "env \<Rightarrow> ptr \<Rightarrow> call list \<Rightarrow> (int \<times> 32 word) \<times> call list" where
  "gnutls_certificate_verify_peers2 e s h =
     ((ret_int e h (GnutlsCertificateVerifyPeers2 s),
       out_uint e h (GnutlsCertificateVerifyPeers2 s)),
      h @ [GnutlsCertificateVerifyPeers2 s])"

abbreviation gnutls_certificate_type_get :: "env \<Rightarrow> ptr \<Rightarrow> call list \<Rightarrow> int \<times> call list" where
  "gnutls_certificate_type_get e s \<equiv> call_int e (GnutlsCertificateTypeGet s)"

text \<open>\<open>gnutls_x509_crt_init\<close> returns a result and stores the new parse context.\<close>

definition gnutls_x509_crt_init :: "env \<Rightarrow> call list \<Rightarrow> (int \<times> ptr) \<times> call list" where
  "gnutls_x509_crt_init e h =
     ((ret_int e h GnutlsX509CrtInit, out_ptr e h GnutlsX509CrtInit), h @ [GnutlsX509CrtInit])"

abbreviation gnutls_x509_crt_import ::
  "env \<Rightarrow> ptr \<Rightarrow> ptr \<Rightarrow> x509_fmt \<Rightarrow> call list \<Rightarrow> int \<times> call list" where
  "gnutls_x509_crt_import e cert datum fmt \<equiv> call_int e (GnutlsX509CrtImport cert datum fmt)"

abbreviation gnutls_x509_crt_check_hostname ::
  "env \<Rightarrow> ptr \<Rightarrow> string \<Rightarrow> call list \<Rightarrow> int \<times> call list" where
  "gnutls_x509_crt_check_hostname e cert name \<equiv> call_int e (GnutlsX509CrtCheckHostname cert name)"

abbreviation gnutls_x509_crt_get_dn :: "env \<Rightarrow> ptr \<Rightarrow> nat \<Rightarrow> call list \<Rightarrow> string \<times> call list" where
  "gnutls_x509_crt_get_dn e cert n \<equiv> call_str e (GnutlsX509CrtGetDn cert n)"

abbreviation gnutls_x509_crt_get_issuer_dn ::
  "env \<Rightarrow> ptr \<Rightarrow> nat \<Rightarrow> call list \<Rightarrow> string \<times> call list" where
  "gnutls_x509_crt_get_issuer_dn e cert n \<equiv> call_str e (GnutlsX509CrtGetIssuerDn cert n)"

abbreviation gnutls_x509_crt_deinit :: "ptr \<Rightarrow> call list \<Rightarrow> call list" where
  "gnutls_x509_crt_deinit cert \<equiv> call_void (GnutlsX509CrtDeinit cert)"

abbreviation gnutls_bye :: "env \<Rightarrow> ptr \<Rightarrow> close_request \<Rightarrow> call list \<Rightarrow> int \<times> call list" where
  "gnutls_bye e s how \<equiv> call_int e (GnutlsBye s how)"

abbreviation gnutls_deinit :: "ptr \<Rightarrow> call list \<Rightarrow> call list" where
  "gnutls_deinit s \<equiv> call_void (GnutlsDeinit s)"

abbreviation gnutls_record_send ::
  "env \<Rightarrow> ptr \<Rightarrow> string \<Rightarrow> int \<Rightarrow> call list \<Rightarrow> int \<times> call list" where
  "gnutls_record_send e s buf len \<equiv> call_int e (GnutlsRecordSend s buf len)"

text \<open>\<open>gnutls_record_recv e s buf off sz\<close> is the call with \<open>&buf[off]\<close> and
  \<open>sz\<close>: it returns a result and writes into the caller's buffer.\<close>

definition gnutls_record_recv ::
  "env \<Rightarrow> ptr \<Rightarrow> string \<Rightarrow> int \<Rightarrow> int \<Rightarrow> call list \<Rightarrow> (int \<times> string) \<times> call list" where
  "gnutls_record_recv e s buf off sz h =
     ((ret_int e h (GnutlsRecordRecv s off sz), out_buf e h (GnutlsRecordRecv s off sz) buf),
      h @ [GnutlsRecordRecv s off sz])"

subsection \<open>The retry loop\<close>

text \<open>
  \<^verbatim>\<open>do { ret = ...; } while (ret == GNUTLS_E_INTERRUPTED || ret == GNUTLS_E_AGAIN);\<close>
  The four loops of the file have this shape and no bound on their iterations: the
  loop is a partial function, \<open>None\<close> when it never leaves.
\<close>

partial_function (option) retry_loop :: "('s \<Rightarrow> int \<times> 's) \<Rightarrow> 's \<Rightarrow> (int \<times> 's) option" where
  "retry_loop body s =
     (case body s of
        (ret, s') \<Rightarrow>
          if ret = GNUTLS_E_INTERRUPTED \<or> ret = GNUTLS_E_AGAIN then retry_loop body s'
          else Some (ret, s'))"

declare retry_loop.simps [code]

subsection \<open>The certificate verification callback\<close>

text \<open>The format string of the last error line of the callback, which contains
  apostrophes (character \<open>0x27\<close>).\<close>

definition hostname_mismatch_fmt :: string where
  "hostname_mismatch_fmt =
     ''The certificate'' @ [CHR 0x27] @ ''s owner does not match the hostname '' @
     [CHR 0x27] @ ''%s'' @ [CHR 0x27]"

text \<open>Lines 71 to 105 of \<open>verify_certificate_callback\<close>: "From now on X.509
  certificates are assumed".\<close>

definition verify_certificate_x509 ::
  "env \<Rightarrow> ptr \<Rightarrow> string \<Rightarrow> call list \<Rightarrow> int \<times> call list" where
  "verify_certificate_x509 e session hostname h =
     (let (ty, h1) = gnutls_certificate_type_get e session h in
      if ty \<noteq> GNUTLS_CRT_X509 then
        (GNUTLS_E_CERTIFICATE_ERROR, logit LOG_ERR ''Not a valid X.509 certificate'' [] h1)
      else
        let ((r, cert), h2) = gnutls_x509_crt_init e h1 in
        if r < 0 then
          (GNUTLS_E_CERTIFICATE_ERROR, logit LOG_ERR ''Failed init of X.509 cert engine'' [] h2)
        else
          let ((cert_list, cert_list_size), h3) = gnutls_certificate_get_peers e session h2 in
          if cert_list = 0 then
            (GNUTLS_E_CERTIFICATE_ERROR, logit LOG_ERR ''No certificate was found!'' [] h3)
          else
            let (r, h4) = gnutls_x509_crt_import e cert cert_list GNUTLS_X509_FMT_DER h3 in
            if r < 0 then
              (GNUTLS_E_CERTIFICATE_ERROR,
               logit LOG_ERR ''Error while parsing certificate.'' [] h4)
            else
              let (r, h5) = gnutls_x509_crt_check_hostname e cert hostname h4 in
              if r = 0 then
                (GNUTLS_E_CERTIFICATE_ERROR,
                 logit LOG_ERR hostname_mismatch_fmt [ArgS hostname] h5)
              else (0, gnutls_x509_crt_deinit cert h5))"

text \<open>The four status flags that only produce a warning (lines 54 to 64).\<close>

definition status_warnings :: "32 word \<Rightarrow> call list" where
  "status_warnings status =
     (if status AND GNUTLS_CERT_SIGNER_NOT_FOUND \<noteq> 0
      then [Logit LOG_WARNING ''The certificate does not have a known issuer.'' []] else []) @
     (if status AND GNUTLS_CERT_REVOKED \<noteq> 0
      then [Logit LOG_WARNING ''The certificate has been revoked.'' []] else []) @
     (if status AND GNUTLS_CERT_EXPIRED \<noteq> 0
      then [Logit LOG_WARNING ''The certificate has expired.'' []] else []) @
     (if status AND GNUTLS_CERT_NOT_ACTIVATED \<noteq> 0
      then [Logit LOG_WARNING ''The certificate is not yet activated.'' []] else [])"

definition verify_certificate_callback :: "env \<Rightarrow> ptr \<Rightarrow> call list \<Rightarrow> int \<times> call list" where
  "verify_certificate_callback e session h =
     (let (hostname, h1) = gnutls_session_get_ptr e session h;
          ((ret, status), h2) = gnutls_certificate_verify_peers2 e session h1
      in
        if ret < 0 then
          (GNUTLS_E_CERTIFICATE_ERROR,
           logit LOG_ERR ''Failed verifying certificate peers.'' [] h2)
        else
          let h3 = h2 @ status_warnings status in
          if status AND GNUTLS_CERT_INVALID \<noteq> 0 then
            (GNUTLS_E_CERTIFICATE_ERROR, logit LOG_ERR ''The certificate is not trusted.'' [] h3)
          else verify_certificate_x509 e session hostname h3)"

subsection \<open>Opening a connection\<close>

text \<open>\<open>ssl_get_info\<close>: the body is compiled only where the preprocessor symbol
  \<open>gnutls_session_get_desc\<close> is defined.\<close>

definition ssl_get_info :: "env \<Rightarrow> http \<Rightarrow> call list \<Rightarrow> call list" where
  "ssl_get_info e client h =
     (if \<not> have_session_get_desc e then h
      else
        let (info, h1) = gnutls_session_get_desc e (ssl client) h;
            h2 = logit LOG_INFO ''SSL connection using: %s'' [ArgS info] h1
        in gnutls_free info h2)"

text \<open>Lines 161 to 181 of \<open>ssl_open\<close>: the session, the server name, the
  priorities and the credentials. \<open>Inl\<close> is an early return with its code, \<open>Inr\<close>
  carries the server name on.\<close>

definition ssl_open_session ::
  "env \<Rightarrow> http \<Rightarrow> string \<Rightarrow> call list \<Rightarrow> (rc + string) \<times> http \<times> call list" where
  "ssl_open_session e client msg h =
     (let h1 = logit LOG_INFO ''%s, initiating HTTPS ...'' [ArgS msg] h;
          (s, h2) = gnutls_init e h1;
          client1 = client\<lparr>ssl := s\<rparr>;
          (sn, h3) = http_get_remote_name e h2;
          h4 = gnutls_session_set_ptr (ssl client1) sn h3;
          (r, h5) = gnutls_server_name_set e (ssl client1) sn (length sn) h4
      in
        if r \<noteq> 0 then (Inl RC_HTTPS_SNI_ERROR, client1, h5)
        else
          let ((ret, err), h6) = gnutls_priority_set_direct e (ssl client1) ''NORMAL'' h5 in
          if ret < 0 then
            (Inl RC_HTTPS_INVALID_REQUEST, client1,
             if ret = GNUTLS_E_INVALID_REQUEST
             then logit LOG_ERR ''Syntax error at: %s'' [ArgS err] h6 else h6)
          else (Inr sn, client1, gnutls_credentials_set (ssl client1) h6))"

text \<open>
  Lines 183 to 189: connect to the peer and hand the socket to GnuTLS.
  Modelled from the spec: the macro \<open>DO\<close> is defined in \<open>error.h\<close>, a header that is
  not among the sources verified here; the spec says of this line "run \<open>tcp_init\<close>;
  propagate any TCP error", so \<open>DO(f)\<close> returns the code of \<open>f\<close> from the enclosing
  function when it is not \<open>RC_OK\<close>. \<open>Some r\<close> is that return.
\<close>

definition ssl_open_connect ::
  "env \<Rightarrow> http \<Rightarrow> string \<Rightarrow> call list \<Rightarrow> rc option \<times> http \<times> call list" where
  "ssl_open_connect e client msg h =
     (let (t1, h1) = tcp_set_port e (tcp client) 443 h;
          ((r, t2), h2) = tcp_init e t1 msg h1;
          client2 = client\<lparr>tcp := t2\<rparr>
      in
        if r \<noteq> RC_OK then (Some r, client2, h2)
        else (None, client2, gnutls_transport_set_ptr (ssl client2) (ip_socket (tcp client2)) h2))"

text \<open>Lines 205 to 226: the server's certificate, for the log.\<close>

definition ssl_open_peer_cert :: "env \<Rightarrow> http \<Rightarrow> call list \<Rightarrow> rc \<times> call list" where
  "ssl_open_peer_cert e client h =
     (let ((cert_list, cert_list_size), h1) = gnutls_certificate_get_peers e (ssl client) h in
      if cert_list_size > 0 then
        let ((r, cert), h2) = gnutls_x509_crt_init e h1 in
        if r \<noteq> 0 then (RC_HTTPS_FAILED_GETTING_CERT, h2)
        else
          let (r', h3) = gnutls_x509_crt_import e cert cert_list GNUTLS_X509_FMT_DER h2;
              (buf, h4) = gnutls_x509_crt_get_dn e cert 256 h3;
              h5 = logit LOG_INFO ''SSL server cert subject: %s'' [ArgS buf] h4;
              (buf', h6) = gnutls_x509_crt_get_issuer_dn e cert 256 h5;
              h7 = logit LOG_INFO ''SSL server cert issuer: %s'' [ArgS buf'] h6
          in (RC_OK, gnutls_x509_crt_deinit cert h7)
      else (RC_OK, h1))"

text \<open>\<open>ssl_open\<close>. The result is the returned code, the handle and the trace;
  \<open>None\<close> when the handshake loop never leaves.\<close>

definition ssl_open ::
  "env \<Rightarrow> http \<Rightarrow> string \<Rightarrow> call list \<Rightarrow> ((rc \<times> http) \<times> call list) option" where
  "ssl_open e client msg h =
     (if \<not> ssl_enabled client then
        (case tcp_init e (tcp client) msg h of
           ((r, t), h') \<Rightarrow> Some ((r, client\<lparr>tcp := t\<rparr>), h'))
      else
        case ssl_open_session e client msg h of
          (Inl r, client1, h1) \<Rightarrow> Some ((r, client1), h1)
        | (Inr sn, client1, h1) \<Rightarrow>
            (case ssl_open_connect e client1 msg h1 of
               (Some r, client2, h2) \<Rightarrow> Some ((r, client2), h2)
             | (None, client2, h2) \<Rightarrow>
                 (case retry_loop (gnutls_handshake e (ssl client2)) h2 of
                    None \<Rightarrow> None
                  | Some (ret, h3) \<Rightarrow>
                      if ret < 0 then
                        (let (str, h4) = gnutls_strerror e ret h3 in
                         Some ((RC_HTTPS_FAILED_CONNECT, client2),
                               logit LOG_ERR ''SSL handshake with %s failed: %s''
                                 [ArgS sn, ArgS str] h4))
                      else
                        (case ssl_open_peer_cert e client2 (ssl_get_info e client2 h3) of
                           (r, h4) \<Rightarrow> Some ((r, client2), h4)))))"

subsection \<open>Closing, sending, receiving\<close>

definition ssl_close :: "env \<Rightarrow> http \<Rightarrow> call list \<Rightarrow> (rc \<times> http) \<times> call list" where
  "ssl_close e client h =
     (let h2 = (if ssl_enabled client then
                  let (r, h1) = gnutls_bye e (ssl client) GNUTLS_SHUT_WR h
                  in gnutls_deinit (ssl client) h1
                else h)
      in case tcp_exit e (tcp client) h2 of
           ((r, t), h3) \<Rightarrow> ((r, client\<lparr>tcp := t\<rparr>), h3))"

definition ssl_send ::
  "env \<Rightarrow> http \<Rightarrow> string \<Rightarrow> int \<Rightarrow> call list \<Rightarrow> ((rc \<times> http) \<times> call list) option" where
  "ssl_send e client buf len h =
     (if \<not> ssl_enabled client then
        (case tcp_send e (tcp client) buf len h of
           ((r, t), h') \<Rightarrow> Some ((r, client\<lparr>tcp := t\<rparr>), h'))
      else
        case retry_loop (gnutls_record_send e (ssl client) buf len) h of
          None \<Rightarrow> None
        | Some (ret, h1) \<Rightarrow>
            if ret < 0 then Some ((RC_HTTPS_SEND_ERROR, client), h1)
            else Some ((RC_OK, client),
                       logit LOG_DEBUG ''Successfully sent DDNS update using HTTPS!'' [] h1))"

text \<open>The body of the first loop of \<open>ssl_recv\<close> ("Read HTTP header"); the state
  is the buffer and the trace.\<close>

definition recv_header ::
  "env \<Rightarrow> ptr \<Rightarrow> int \<Rightarrow> string \<times> call list \<Rightarrow> int \<times> string \<times> call list" where
  "recv_header e s len = (\<lambda>(buf, h).
     case gnutls_record_recv e s buf 0 len h of ((ret, buf'), h') \<Rightarrow> (ret, buf', h'))"

text \<open>The body of the second loop ("Read HTTP body"); the state is \<open>len\<close>,
  \<open>buf_len\<close>, the buffer and the trace.\<close>

definition recv_body ::
  "env \<Rightarrow> ptr \<Rightarrow> int \<times> int \<times> string \<times> call list \<Rightarrow> int \<times> int \<times> int \<times> string \<times> call list" where
  "recv_body e s = (\<lambda>(len, buf_len, buf, h).
     case gnutls_record_recv e s buf len buf_len h of
       ((ret, buf'), h') \<Rightarrow>
         if ret \<ge> 0 then (ret, len + ret, buf_len - ret, buf', h')
         else (ret, len, buf_len, buf', h'))"

text \<open>\<open>ssl_recv e client buf buf_len recv_len h\<close>: \<open>buf\<close> and \<open>recv_len\<close> are the
  contents of the caller's buffer and of \<open>*recv_len\<close> before the call; the result
  carries their contents after it. The \<open>int\<close> variables of the file are integers
  here: the only arithmetic is \<open>len += ret\<close> and \<open>buf_len -= ret\<close> on results that are
  not negative, and a record read returns at most the capacity it was given, so
  the sums stay between 0 and the caller's \<open>buf_len\<close>.\<close>

definition ssl_recv ::
  "env \<Rightarrow> http \<Rightarrow> string \<Rightarrow> int \<Rightarrow> int \<Rightarrow> call list \<Rightarrow>
     ((rc \<times> http \<times> string \<times> int) \<times> call list) option" where
  "ssl_recv e client buf buf_len recv_len h =
     (if \<not> ssl_enabled client then
        (case tcp_recv e (tcp client) buf buf_len recv_len h of
           ((r, t, buf', recv_len'), h') \<Rightarrow> Some ((r, client\<lparr>tcp := t\<rparr>, buf', recv_len'), h'))
      else
        case retry_loop (recv_header e (ssl client) buf_len) (buf, h) of
          None \<Rightarrow> None
        | Some (ret, buf1, h1) \<Rightarrow>
            if ret < 0 then Some ((RC_HTTPS_RECV_ERROR, client, buf1, recv_len), h1)
            else
              (case retry_loop (recv_body e (ssl client)) (ret, buf_len - ret, buf1, h1) of
                 None \<Rightarrow> None
               | Some (ret', len, buf_len', buf2, h2) \<Rightarrow>
                   if ret' < 0 then Some ((RC_HTTPS_RECV_ERROR, client, buf2, recv_len), h2)
                   else
                     Some ((RC_OK, client, buf2, len),
                           logit LOG_DEBUG
                             ''Successfully received DDNS update response (%d bytes) using HTTPS!''
                             [ArgI len] h2)))"

section \<open>Notions used to state the properties\<close>

text \<open>The two results on which every loop of the file tries again.\<close>

definition is_transient :: "int \<Rightarrow> bool" where
  "is_transient r = (r = GNUTLS_E_INTERRUPTED \<or> r = GNUTLS_E_AGAIN)"

text \<open>\<open>retried e c h n\<close>: the call \<open>c\<close>, made again and again from the trace \<open>h\<close> on,
  is answered \<open>n\<close> times with a transient result and then with another one.\<close>

definition retried :: "env \<Rightarrow> call \<Rightarrow> call list \<Rightarrow> nat \<Rightarrow> bool" where
  "retried e c h n =
     ((\<forall>i\<in>{..<n}. is_transient (ret_int e (h @ replicate i c) c)) \<and>
      \<not> is_transient (ret_int e (h @ replicate n c) c))"

text \<open>\<open>recv_fill e c h k buf\<close>: the content of the caller's buffer after the record
  read \<open>c\<close> was made \<open>k\<close> times in a row from the trace \<open>h\<close> on, starting from the
  content \<open>buf\<close>: each call leaves in the buffer what the library wrote there.\<close>

fun recv_fill :: "env \<Rightarrow> call \<Rightarrow> call list \<Rightarrow> nat \<Rightarrow> string \<Rightarrow> string" where
  "recv_fill e c h 0 buf = buf"
| "recv_fill e c h (Suc k) buf = recv_fill e c (h @ [c]) k (out_buf e h c buf)"

text \<open>
  What the record layer reports as sent during the calls \<open>t\<close> made after \<open>h\<close>: a
  non-negative result of \<open>gnutls_record_send\<close> is the number of bytes of the buffer
  that went out, which can be less than the length asked for (the spec's design
  notes: "even if fewer bytes than requested were accepted"); a negative result
  sends nothing.
\<close>

fun record_sent :: "env \<Rightarrow> call list \<Rightarrow> call list \<Rightarrow> string" where
  "record_sent e h [] = []"
| "record_sent e h (GnutlsRecordSend s buf len # cs) =
     (if 0 \<le> ret_int e h (GnutlsRecordSend s buf len)
      then take (nat (ret_int e h (GnutlsRecordSend s buf len))) buf else []) @
     record_sent e (h @ [GnutlsRecordSend s buf len]) cs"
| "record_sent e h (c # cs) = record_sent e (h @ [c]) cs"

subsection \<open>Concrete environments and handles\<close>

text \<open>An environment in which every call succeeds: the peer presents one X.509
  certificate that matches the host name, a send takes the whole buffer, the first
  record read brings five bytes and the second three.\<close>

fun ok_int :: "call \<Rightarrow> int" where
  "ok_int (GnutlsCertificateTypeGet s) = 1"
| "ok_int (GnutlsX509CrtCheckHostname cert name) = 1"
| "ok_int (GnutlsRecordSend s buf len) = len"
| "ok_int (GnutlsRecordRecv s off sz) = (if off = 0 then 5 else 3)"
| "ok_int _ = 0"

fun ok_ptr :: "call \<Rightarrow> ptr" where
  "ok_ptr GnutlsInit = 1"
| "ok_ptr GnutlsX509CrtInit = 2"
| "ok_ptr (GnutlsCertificateGetPeers s) = 3"
| "ok_ptr _ = 0"

fun ok_uint :: "call \<Rightarrow> 32 word" where
  "ok_uint (GnutlsCertificateGetPeers s) = 1"
| "ok_uint _ = 0"

fun ok_str :: "call \<Rightarrow> string" where
  "ok_str HttpGetRemoteName = ''example.com''"
| "ok_str (GnutlsSessionGetPtr s) = ''example.com''"
| "ok_str (GnutlsX509CrtGetDn cert n) = ''CN=example.com''"
| "ok_str (GnutlsX509CrtGetIssuerDn cert n) = ''CN=Example CA''"
| "ok_str (GnutlsSessionGetDesc s) = ''TLS1.2''"
| "ok_str (GnutlsStrerror r) = ''error''"
| "ok_str _ = []"

text \<open>\<open>write_at off data b\<close>: the buffer \<open>b\<close> with \<open>data\<close> written from offset \<open>off\<close> on.\<close>

definition write_at :: "nat \<Rightarrow> string \<Rightarrow> string \<Rightarrow> string" where
  "write_at off data b = take off b @ data @ drop (off + length data) b"

fun ok_buf :: "call \<Rightarrow> string \<Rightarrow> string" where
  "ok_buf (GnutlsRecordRecv s off sz) b =
     write_at (nat off) (if off = 0 then ''HTTP/'' else ''1.1'') b"
| "ok_buf (TcpRecv n) b = write_at 0 ''PONG'' b"
| "ok_buf _ b = b"

fun ok_len :: "call \<Rightarrow> int \<Rightarrow> int" where
  "ok_len (TcpRecv n) l = 4"
| "ok_len _ l = l"

fun ok_tcp :: "call \<Rightarrow> tcp_sock \<Rightarrow> tcp_sock" where
  "ok_tcp (TcpInit msg) t = t\<lparr>ip_socket := 7\<rparr>"
| "ok_tcp (TcpSetPort p) t = t\<lparr>ip_port := p\<rparr>"
| "ok_tcp TcpExit t = t\<lparr>ip_socket := - 1\<rparr>"
| "ok_tcp _ t = t"

definition env_ok :: env where
  "env_ok =
     \<lparr>ret_int = (\<lambda>h. ok_int), ret_tcp = (\<lambda>h c. None), out_ptr = (\<lambda>h. ok_ptr),
      out_uint = (\<lambda>h. ok_uint), out_str = (\<lambda>h. ok_str), out_buf = (\<lambda>h. ok_buf),
      out_len = (\<lambda>h. ok_len), out_tcp = (\<lambda>h. ok_tcp), have_session_get_desc = False\<rparr>"

text \<open>\<open>env_answer c k r\<close>: as \<open>env_ok\<close>, but the call \<open>c\<close> is answered \<open>k\<close> times with
  \<open>GNUTLS_E_AGAIN\<close>, writing nothing, and from then on with \<open>r\<close>.\<close>

definition env_answer :: "call \<Rightarrow> nat \<Rightarrow> int \<Rightarrow> env" where
  "env_answer c k r =
     env_ok\<lparr>ret_int := (\<lambda>h c'.
       if c' = c then (if count_list h c < k then GNUTLS_E_AGAIN else r) else ok_int c'),
            out_buf := (\<lambda>h c' b.
       if c' = c \<and> count_list h c < k then b else ok_buf c' b)\<rparr>"

text \<open>\<open>env_no_peers\<close>: as \<open>env_ok\<close>, but the peer presents no certificate: the peer
  list is \<open>NULL\<close> and its size is 0.\<close>

definition env_no_peers :: env where
  "env_no_peers =
     env_ok\<lparr>out_ptr := (\<lambda>h c. case c of GnutlsCertificateGetPeers s \<Rightarrow> 0 | _ \<Rightarrow> ok_ptr c),
            out_uint := (\<lambda>h c. 0)\<rparr>"

text \<open>\<open>env_status st\<close>: as \<open>env_ok\<close>, with \<open>st\<close> as the verification status.\<close>

definition env_status :: "32 word \<Rightarrow> env" where
  "env_status st =
     env_ok\<lparr>out_uint := (\<lambda>h c.
       case c of GnutlsCertificateVerifyPeers2 s \<Rightarrow> st | _ \<Rightarrow> ok_uint c)\<rparr>"

text \<open>\<open>env_tcp_fails\<close>: as \<open>env_ok\<close>, but \<open>tcp_init\<close> fails with the code 13 of the
  transport.\<close>

definition env_tcp_fails :: env where
  "env_tcp_fails =
     env_ok\<lparr>ret_tcp := (\<lambda>h c. case c of TcpInit msg \<Rightarrow> Some 13 | _ \<Rightarrow> None)\<rparr>"

text \<open>\<open>env_record_limit\<close>: as \<open>env_ok\<close>, but one call of \<open>gnutls_record_send\<close> takes at
  most the payload of one record, \<open>2 ^ 14\<close> bytes.\<close>

definition env_record_limit :: env where
  "env_record_limit =
     env_ok\<lparr>ret_int := (\<lambda>h c.
       case c of GnutlsRecordSend s buf len \<Rightarrow> min len 16384 | _ \<Rightarrow> ok_int c)\<rparr>"

definition client_plain :: http where
  "client_plain = \<lparr>ssl_enabled = False, tcp = \<lparr>ip_socket = - 1, ip_port = 8080\<rparr>, ssl = 0\<rparr>"

definition client_tls :: http where
  "client_tls = \<lparr>ssl_enabled = True, tcp = \<lparr>ip_socket = - 1, ip_port = 8080\<rparr>, ssl = 0\<rparr>"

text \<open>The TLS handle once \<open>ssl_open\<close> has succeeded in \<open>env_ok\<close>.\<close>

definition client_open :: http where
  "client_open = \<lparr>ssl_enabled = True, tcp = \<lparr>ip_socket = 7, ip_port = 443\<rparr>, ssl = 1\<rparr>"

section \<open>The retry loop\<close>

lemma is_transient_negative: "is_transient r \<Longrightarrow> r < 0"
  by (auto simp: is_transient_def GNUTLS_E_INTERRUPTED_def GNUTLS_E_AGAIN_def)

lemma retry_loop_again:
  "body s = (r, s') \<Longrightarrow> is_transient r \<Longrightarrow> retry_loop body s = retry_loop body s'"
  by (subst retry_loop.simps) (simp add: is_transient_def)

lemma retry_loop_leave:
  "body s = (r, s') \<Longrightarrow> \<not> is_transient r \<Longrightarrow> retry_loop body s = Some (r, s')"
  by (subst retry_loop.simps) (simp add: is_transient_def)

text \<open>Whatever the loop returns is not a transient result.\<close>

lemma retry_loop_result:
  assumes "retry_loop body s = Some y"
  shows "\<not> is_transient (fst y)"
  by (rule retry_loop.raw_induct [where P = "\<lambda>_ _ y. \<not> is_transient (fst y)", OF _ assms])
     (auto simp: is_transient_def split: prod.splits if_splits)

lemma replicate_shift: "(h @ [c]) @ replicate i c = h @ replicate (Suc i) c"
  by (simp add: replicate_app_Cons_same)

lemma retried_0: "retried e c h 0 \<longleftrightarrow> \<not> is_transient (ret_int e h c)"
  by (simp add: retried_def)

lemma retried_Suc:
  "retried e c h (Suc n) \<longleftrightarrow> is_transient (ret_int e h c) \<and> retried e c (h @ [c]) n"
proof -
  have "(\<forall>i\<in>{..<Suc n}. P i) \<longleftrightarrow> P 0 \<and> (\<forall>i\<in>{..<n}. P (Suc i))" for P :: "nat \<Rightarrow> bool"
    by (auto simp: less_Suc_eq_0_disj)
  then show ?thesis
    unfolding retried_def replicate_shift by simp
qed

text \<open>A loop around one call with an \<open>int\<close> result (the handshake, the record
  send): after \<open>n\<close> transient answers it returns the next one, having made
  \<open>n + 1\<close> calls and nothing else.\<close>

lemma retry_call_int:
  "retried e c h n \<Longrightarrow>
     retry_loop (call_int e c) h =
       Some (ret_int e (h @ replicate n c) c, h @ replicate (Suc n) c)"
proof (induction n arbitrary: h)
  case 0
  then show ?case by (simp add: retried_0 retry_loop_leave call_int_def)
next
  case (Suc n)
  then have first: "is_transient (ret_int e h c)" and rest: "retried e c (h @ [c]) n"
    by (simp_all add: retried_Suc)
  have "retry_loop (call_int e c) h = retry_loop (call_int e c) (h @ [c])"
    using first by (intro retry_loop_again) (simp_all add: call_int_def)
  also have "\<dots> = Some (ret_int e ((h @ [c]) @ replicate n c) c,
                         (h @ [c]) @ replicate (Suc n) c)"
    using rest by (rule Suc.IH)
  finally show ?case unfolding replicate_shift .
qed

text \<open>Conversely, a result of that loop comes from such a run.\<close>

lemma retry_call_int_result:
  assumes "retry_loop (call_int e c) h = Some y"
  shows "\<exists>n. retried e c h n \<and>
             y = (ret_int e (h @ replicate n c) c, h @ replicate (Suc n) c)"
proof -
  let ?P = "\<lambda>body h y. body = call_int e c \<longrightarrow>
              (\<exists>n. retried e c h n \<and>
                   y = (ret_int e (h @ replicate n c) c, h @ replicate (Suc n) c))"
  have "?P (call_int e c) h y"
  proof (rule retry_loop.raw_induct [where P = ?P, OF _ assms], intro impI)
    fix f :: "(call list \<Rightarrow> int \<times> call list) \<Rightarrow> call list \<Rightarrow> (int \<times> call list) option"
    fix body h y
    assume IH: "\<And>b s y. f b s = Some y \<Longrightarrow> ?P b s y"
      and step: "(case body h of (ret, s') \<Rightarrow>
                    if ret = GNUTLS_E_INTERRUPTED \<or> ret = GNUTLS_E_AGAIN
                    then f body s' else Some (ret, s')) = Some y"
      and body: "body = call_int e c"
    show "\<exists>n. retried e c h n \<and>
             y = (ret_int e (h @ replicate n c) c, h @ replicate (Suc n) c)"
    proof (cases "is_transient (ret_int e h c)")
      case True
      with step body have "f body (h @ [c]) = Some y"
        by (auto simp: call_int_def is_transient_def)
      from IH [OF this] body obtain n where n: "retried e c (h @ [c]) n"
        "y = (ret_int e ((h @ [c]) @ replicate n c) c, (h @ [c]) @ replicate (Suc n) c)"
        by blast
      have "retried e c h (Suc n)"
        using True n(1) by (simp add: retried_Suc)
      moreover have "y = (ret_int e (h @ replicate (Suc n) c) c, h @ replicate (Suc (Suc n)) c)"
        using n(2) unfolding replicate_shift .
      ultimately show ?thesis by blast
    next
      case False
      with step body have "y = (ret_int e h c, h @ [c])"
        by (auto simp: call_int_def is_transient_def)
      with False show ?thesis by (intro exI [of _ 0]) (simp add: retried_0)
    qed
  qed
  then show ?thesis by simp
qed

text \<open>The loop has no bound: answered with transient results for ever, it never
  returns.\<close>

lemma retry_call_int_None:
  assumes "\<forall>i. is_transient (ret_int e (h @ replicate i c) c)"
  shows "retry_loop (call_int e c) h = None"
proof (cases "retry_loop (call_int e c) h")
  case None
  then show ?thesis .
next
  case (Some y)
  from retry_call_int_result [OF this] assms show ?thesis
    unfolding retried_def by blast
qed

text \<open>The first loop of \<open>ssl_recv\<close>: its result, the buffer it leaves and its
  trace.\<close>

lemma retry_recv_header:
  "retried e (GnutlsRecordRecv s 0 len) h n \<Longrightarrow>
     retry_loop (recv_header e s len) (buf, h) =
       Some (ret_int e (h @ replicate n (GnutlsRecordRecv s 0 len)) (GnutlsRecordRecv s 0 len),
             recv_fill e (GnutlsRecordRecv s 0 len) h (Suc n) buf,
             h @ replicate (Suc n) (GnutlsRecordRecv s 0 len))"
proof (induction n arbitrary: h buf)
  case 0
  then show ?case
    by (simp add: retried_0 retry_loop_leave recv_header_def gnutls_record_recv_def)
next
  case (Suc n)
  let ?c = "GnutlsRecordRecv s 0 len"
  from Suc.prems have first: "is_transient (ret_int e h ?c)" and rest: "retried e ?c (h @ [?c]) n"
    by (simp_all add: retried_Suc)
  have "retry_loop (recv_header e s len) (buf, h) =
        retry_loop (recv_header e s len) (out_buf e h ?c buf, h @ [?c])"
    using first by (intro retry_loop_again) (simp_all add: recv_header_def gnutls_record_recv_def)
  also note Suc.IH [OF rest, of "out_buf e h ?c buf"]
  finally show ?case
    unfolding replicate_shift by simp
qed

text \<open>The second loop: a transient result is negative, so \<open>len\<close> and \<open>buf_len\<close>
  are the same at every attempt, and change once, at a result that is not
  negative.\<close>

lemma retry_recv_body:
  "retried e (GnutlsRecordRecv s len bl) h n \<Longrightarrow>
     retry_loop (recv_body e s) (len, bl, buf, h) =
       (let c = GnutlsRecordRecv s len bl; r = ret_int e (h @ replicate n c) c in
        Some (r, if 0 \<le> r then len + r else len, if 0 \<le> r then bl - r else bl,
              recv_fill e c h (Suc n) buf, h @ replicate (Suc n) c))"
proof (induction n arbitrary: h buf)
  case 0
  then show ?case
    by (simp add: retried_0 retry_loop_leave recv_body_def gnutls_record_recv_def Let_def)
next
  case (Suc n)
  let ?c = "GnutlsRecordRecv s len bl"
  from Suc.prems have first: "is_transient (ret_int e h ?c)" and rest: "retried e ?c (h @ [?c]) n"
    by (simp_all add: retried_Suc)
  from first have neg: "ret_int e h ?c < 0" by (rule is_transient_negative)
  have "retry_loop (recv_body e s) (len, bl, buf, h) =
        retry_loop (recv_body e s) (len, bl, out_buf e h ?c buf, h @ [?c])"
    using first neg by (intro retry_loop_again) (simp_all add: recv_body_def gnutls_record_recv_def)
  also note Suc.IH [OF rest, of "out_buf e h ?c buf"]
  finally show ?case
    unfolding replicate_shift by (simp add: Let_def)
qed

section \<open>The certificate verification callback\<close>

text \<open>The callback, call by call: what it returns and the trace it leaves, with
  the warning lines still as \<open>status_warnings\<close>.\<close>

lemma verify_certificate_callback_explicit:
  "let get = GnutlsSessionGetPtr s;
       hostname = out_str e h get;
       h1 = h @ [get];
       verify = GnutlsCertificateVerifyPeers2 s;
       status = out_uint e h1 verify;
       warnings = status_warnings status;
       h2 = h1 @ [verify] @ warnings;
       type_get = GnutlsCertificateTypeGet s;
       h3 = h2 @ [type_get];
       cert = out_ptr e h3 GnutlsX509CrtInit;
       h4 = h3 @ [GnutlsX509CrtInit];
       peers = GnutlsCertificateGetPeers s;
       cert_list = out_ptr e h4 peers;
       h5 = h4 @ [peers];
       import = GnutlsX509CrtImport cert cert_list GNUTLS_X509_FMT_DER;
       h6 = h5 @ [import];
       check = GnutlsX509CrtCheckHostname cert hostname;
       h7 = h6 @ [check];
       verification_fails = (ret_int e h1 verify < 0);
       chain_invalid = (status AND GNUTLS_CERT_INVALID \<noteq> 0);
       not_x509 = (ret_int e h2 type_get \<noteq> GNUTLS_CRT_X509);
       no_context = (ret_int e h3 GnutlsX509CrtInit < 0);
       no_certificate = (cert_list = 0);
       import_fails = (ret_int e h5 import < 0);
       name_mismatch = (ret_int e h6 check = 0)
   in verify_certificate_callback e s h =
        (if verification_fails then
           (GNUTLS_E_CERTIFICATE_ERROR,
            h1 @ [verify, Logit LOG_ERR ''Failed verifying certificate peers.'' []])
         else if chain_invalid then
           (GNUTLS_E_CERTIFICATE_ERROR,
            h2 @ [Logit LOG_ERR ''The certificate is not trusted.'' []])
         else if not_x509 then
           (GNUTLS_E_CERTIFICATE_ERROR,
            h3 @ [Logit LOG_ERR ''Not a valid X.509 certificate'' []])
         else if no_context then
           (GNUTLS_E_CERTIFICATE_ERROR,
            h4 @ [Logit LOG_ERR ''Failed init of X.509 cert engine'' []])
         else if no_certificate then
           (GNUTLS_E_CERTIFICATE_ERROR,
            h5 @ [Logit LOG_ERR ''No certificate was found!'' []])
         else if import_fails then
           (GNUTLS_E_CERTIFICATE_ERROR,
            h6 @ [Logit LOG_ERR ''Error while parsing certificate.'' []])
         else if name_mismatch then
           (GNUTLS_E_CERTIFICATE_ERROR,
            h7 @ [Logit LOG_ERR hostname_mismatch_fmt [ArgS hostname]])
         else (0, h7 @ [GnutlsX509CrtDeinit cert])) \<and>
      (fst (verify_certificate_callback e s h) = GNUTLS_E_CERTIFICATE_ERROR \<longleftrightarrow>
         verification_fails \<or> chain_invalid \<or> not_x509 \<or> no_context \<or>
         no_certificate \<or> import_fails \<or> name_mismatch) \<and>
      (fst (verify_certificate_callback e s h) = 0 \<longleftrightarrow>
         \<not> (verification_fails \<or> chain_invalid \<or> not_x509 \<or> no_context \<or>
            no_certificate \<or> import_fails \<or> name_mismatch)) \<and>
      GNUTLS_E_CERTIFICATE_ERROR \<noteq> 0"
proof -
  define get where "get = GnutlsSessionGetPtr s"
  define hostname where "hostname = out_str e h get"
  define h1 where "h1 = h @ [get]"
  define verify where "verify = GnutlsCertificateVerifyPeers2 s"
  define status where "status = out_uint e h1 verify"
  define warnings where "warnings = status_warnings status"
  define h2 where "h2 = h1 @ [verify] @ warnings"
  define type_get where "type_get = GnutlsCertificateTypeGet s"
  define h3 where "h3 = h2 @ [type_get]"
  define cert where "cert = out_ptr e h3 GnutlsX509CrtInit"
  define h4 where "h4 = h3 @ [GnutlsX509CrtInit]"
  define peers where "peers = GnutlsCertificateGetPeers s"
  define cert_list where "cert_list = out_ptr e h4 peers"
  define h5 where "h5 = h4 @ [peers]"
  define import where "import = GnutlsX509CrtImport cert cert_list GNUTLS_X509_FMT_DER"
  define h6 where "h6 = h5 @ [import]"
  define check where "check = GnutlsX509CrtCheckHostname cert hostname"
  define h7 where "h7 = h6 @ [check]"
  define verification_fails where "verification_fails = (ret_int e h1 verify < 0)"
  define chain_invalid where "chain_invalid = (status AND GNUTLS_CERT_INVALID \<noteq> 0)"
  define not_x509 where "not_x509 = (ret_int e h2 type_get \<noteq> GNUTLS_CRT_X509)"
  define no_context where "no_context = (ret_int e h3 GnutlsX509CrtInit < 0)"
  define no_certificate where "no_certificate = (cert_list = 0)"
  define import_fails where "import_fails = (ret_int e h5 import < 0)"
  define name_mismatch where "name_mismatch = (ret_int e h6 check = 0)"
  note names = get_def hostname_def h1_def verify_def status_def warnings_def h2_def
    type_get_def h3_def cert_def h4_def peers_def cert_list_def h5_def import_def h6_def
    check_def h7_def verification_fails_def chain_invalid_def not_x509_def no_context_def
    no_certificate_def import_fails_def name_mismatch_def
  have sentinel: "GNUTLS_E_CERTIFICATE_ERROR \<noteq> 0"
    by (simp add: GNUTLS_E_CERTIFICATE_ERROR_def)
  have x509: "verify_certificate_x509 e s hostname h2 =
     (if not_x509 then
        (GNUTLS_E_CERTIFICATE_ERROR,
         h3 @ [Logit LOG_ERR ''Not a valid X.509 certificate'' []])
      else if no_context then
        (GNUTLS_E_CERTIFICATE_ERROR,
         h4 @ [Logit LOG_ERR ''Failed init of X.509 cert engine'' []])
      else if no_certificate then
        (GNUTLS_E_CERTIFICATE_ERROR,
         h5 @ [Logit LOG_ERR ''No certificate was found!'' []])
      else if import_fails then
        (GNUTLS_E_CERTIFICATE_ERROR,
         h6 @ [Logit LOG_ERR ''Error while parsing certificate.'' []])
      else if name_mismatch then
        (GNUTLS_E_CERTIFICATE_ERROR,
         h7 @ [Logit LOG_ERR hostname_mismatch_fmt [ArgS hostname]])
      else (0, h7 @ [GnutlsX509CrtDeinit cert]))"
    unfolding type_get_def h3_def cert_def h4_def peers_def cert_list_def h5_def import_def
      h6_def check_def h7_def not_x509_def no_context_def no_certificate_def import_fails_def
      name_mismatch_def
    by (simp add: verify_certificate_x509_def Let_def call_int_def call_void_def
          gnutls_x509_crt_init_def gnutls_certificate_get_peers_def)
  have callback: "verify_certificate_callback e s h =
     (if verification_fails then
        (GNUTLS_E_CERTIFICATE_ERROR,
         h1 @ [verify, Logit LOG_ERR ''Failed verifying certificate peers.'' []])
      else if chain_invalid then
        (GNUTLS_E_CERTIFICATE_ERROR, h2 @ [Logit LOG_ERR ''The certificate is not trusted.'' []])
      else verify_certificate_x509 e s hostname h2)"
    unfolding get_def hostname_def h1_def verify_def status_def warnings_def h2_def
      verification_fails_def chain_invalid_def
    by (simp add: verify_certificate_callback_def Let_def call_str_def call_void_def
          gnutls_certificate_verify_peers2_def)
  define result where "result =
     (if verification_fails then
        (GNUTLS_E_CERTIFICATE_ERROR,
         h1 @ [verify, Logit LOG_ERR ''Failed verifying certificate peers.'' []])
      else if chain_invalid then
        (GNUTLS_E_CERTIFICATE_ERROR, h2 @ [Logit LOG_ERR ''The certificate is not trusted.'' []])
      else if not_x509 then
        (GNUTLS_E_CERTIFICATE_ERROR,
         h3 @ [Logit LOG_ERR ''Not a valid X.509 certificate'' []])
      else if no_context then
        (GNUTLS_E_CERTIFICATE_ERROR,
         h4 @ [Logit LOG_ERR ''Failed init of X.509 cert engine'' []])
      else if no_certificate then
        (GNUTLS_E_CERTIFICATE_ERROR,
         h5 @ [Logit LOG_ERR ''No certificate was found!'' []])
      else if import_fails then
        (GNUTLS_E_CERTIFICATE_ERROR,
         h6 @ [Logit LOG_ERR ''Error while parsing certificate.'' []])
      else if name_mismatch then
        (GNUTLS_E_CERTIFICATE_ERROR,
         h7 @ [Logit LOG_ERR hostname_mismatch_fmt [ArgS hostname]])
      else (0, h7 @ [GnutlsX509CrtDeinit cert]))"
  have run: "verify_certificate_callback e s h = result"
    unfolding result_def callback x509 ..
  have sentinel_iff: "fst result = GNUTLS_E_CERTIFICATE_ERROR \<longleftrightarrow>
      verification_fails \<or> chain_invalid \<or> not_x509 \<or> no_context \<or>
      no_certificate \<or> import_fails \<or> name_mismatch"
    unfolding result_def using sentinel by auto
  have zero_iff: "fst result = 0 \<longleftrightarrow>
      \<not> (verification_fails \<or> chain_invalid \<or> not_x509 \<or> no_context \<or>
         no_certificate \<or> import_fails \<or> name_mismatch)"
    unfolding result_def using sentinel by auto
  have "verify_certificate_callback e s h = result \<and>
      (fst (verify_certificate_callback e s h) = GNUTLS_E_CERTIFICATE_ERROR \<longleftrightarrow>
         verification_fails \<or> chain_invalid \<or> not_x509 \<or> no_context \<or>
         no_certificate \<or> import_fails \<or> name_mismatch) \<and>
      (fst (verify_certificate_callback e s h) = 0 \<longleftrightarrow>
         \<not> (verification_fails \<or> chain_invalid \<or> not_x509 \<or> no_context \<or>
            no_certificate \<or> import_fails \<or> name_mismatch)) \<and>
      GNUTLS_E_CERTIFICATE_ERROR \<noteq> 0"
    using run sentinel_iff zero_iff sentinel by simp
  then show ?thesis
    unfolding Let_def result_def names .
qed

section \<open>Sending\<close>

text \<open>What the record layer reports as sent over the attempts of one send loop:
  the transient attempts send nothing, the last one sends what its result says.\<close>

lemma record_sent_retried:
  "retried e (GnutlsRecordSend s buf len) h n \<Longrightarrow>
     record_sent e h (replicate (Suc n) (GnutlsRecordSend s buf len) @ cs) =
       (let r = ret_int e (h @ replicate n (GnutlsRecordSend s buf len))
                  (GnutlsRecordSend s buf len)
        in if 0 \<le> r then take (nat r) buf else []) @
       record_sent e (h @ replicate (Suc n) (GnutlsRecordSend s buf len)) cs"
proof (induction n arbitrary: h)
  case 0
  then show ?case by (simp add: Let_def)
next
  case (Suc n)
  let ?c = "GnutlsRecordSend s buf len"
  from Suc.prems have first: "is_transient (ret_int e h ?c)" and rest: "retried e ?c (h @ [?c]) n"
    by (simp_all add: retried_Suc)
  from first have neg: "\<not> 0 \<le> ret_int e h ?c"
    by (auto dest: is_transient_negative)
  have "record_sent e h (replicate (Suc (Suc n)) ?c @ cs) =
        record_sent e (h @ [?c]) (replicate (Suc n) ?c @ cs)"
    using neg by simp
  also note Suc.IH [OF rest]
  finally show ?case unfolding replicate_shift .
qed


section \<open>The stages of \<open>ssl_open\<close>\<close>

text \<open>Setting up the session makes no call to the TCP transport, leaves the
  socket structure of the handle alone, and can only fail with one of two codes.\<close>

lemma ssl_open_session_frame:
  assumes "ssl_open_session e client msg h = (res, c1, h1)"
  shows "tcp c1 = tcp client"
    and "\<exists>u. h1 = h @ u \<and> filter is_tcp_call u = []"
    and "res = Inl r \<Longrightarrow> r = RC_HTTPS_SNI_ERROR \<or> r = RC_HTTPS_INVALID_REQUEST"
  using assms
  by (auto simp: ssl_open_session_def Let_def call_void_def call_ptr_def call_str_def
        call_int_def gnutls_priority_set_direct_def split: if_splits)

text \<open>Connecting is \<open>tcp_set_port\<close> with 443, then \<open>tcp_init\<close>, then, when that
  succeeded, handing the socket over; a failure is a code of the transport.\<close>

lemma ssl_open_connect_result:
  "ssl_open_connect e c1 msg h1 =
     (let t1 = out_tcp e h1 (TcpSetPort 443) (tcp c1);
          rc = tcp_rc (ret_tcp e (h1 @ [TcpSetPort 443]) (TcpInit msg));
          c2 = c1\<lparr>tcp := out_tcp e (h1 @ [TcpSetPort 443]) (TcpInit msg) t1\<rparr>
      in if rc \<noteq> RC_OK then (Some rc, c2, h1 @ [TcpSetPort 443, TcpInit msg])
         else (None, c2,
               h1 @ [TcpSetPort 443, TcpInit msg,
                     GnutlsTransportSetPtr (ssl c1) (ip_socket (tcp c2))]))"
  by (simp add: ssl_open_connect_def tcp_set_port_def tcp_init_def call_void_def Let_def)

lemma tcp_rc_not_https:
  "tcp_rc x \<noteq> RC_HTTPS_SNI_ERROR" "tcp_rc x \<noteq> RC_HTTPS_INVALID_REQUEST"
  by (simp_all add: tcp_rc_def split: option.splits)

lemma ssl_get_info_frame: "\<exists>u. ssl_get_info e c h = h @ u \<and> filter is_tcp_call u = []"
  by (simp add: ssl_get_info_def call_str_def call_void_def Let_def)

text \<open>Looking at the peer certificate makes no call to the TCP transport and
  returns 0 or \<open>HTTPS_FAILED_GETTING_CERT\<close>.\<close>

lemma ssl_open_peer_cert_frame:
  "\<exists>u. snd (ssl_open_peer_cert e c h) = h @ u \<and> filter is_tcp_call u = []"
  "fst (ssl_open_peer_cert e c h) = RC_OK \<or>
   fst (ssl_open_peer_cert e c h) = RC_HTTPS_FAILED_GETTING_CERT"
  by (simp_all add: ssl_open_peer_cert_def gnutls_certificate_get_peers_def
        gnutls_x509_crt_init_def call_int_def call_str_def call_void_def Let_def)

text \<open>From the handshake on: whatever \<open>ssl_open\<close> returns, it made no call to the
  TCP transport on the way, and the code is none of the two early ones.\<close>

lemma ssl_open_after_connect:
  assumes "ssl_enabled client"
    and "ssl_open_session e client msg h = (Inr sn, c1, h1)"
    and "ssl_open_connect e c1 msg h1 = (None, c2, h2)"
    and "ssl_open e client msg h = Some ((rc, c'), h')"
  shows "\<exists>v. h' = h2 @ v \<and> filter is_tcp_call v = []"
    and "rc = RC_HTTPS_FAILED_CONNECT \<or> rc = RC_OK \<or> rc = RC_HTTPS_FAILED_GETTING_CERT"
    and "c' = c2"
proof -
  let ?hs = "GnutlsHandshake (ssl c2)"
  from assms obtain y where loop: "retry_loop (call_int e ?hs) h2 = Some y"
    by (auto simp: ssl_open_def split: option.splits)
  from retry_call_int_result [OF loop] obtain n where
    y: "y = (ret_int e (h2 @ replicate n ?hs) ?hs, h2 @ replicate (Suc n) ?hs)"
    by blast
  let ?r = "ret_int e (h2 @ replicate n ?hs) ?hs"
  let ?h3 = "h2 @ replicate (Suc n) ?hs"
  show "c' = c2"
    using assms loop y
    by (auto simp: ssl_open_def Let_def call_str_def split: if_splits prod.splits)
  show "rc = RC_HTTPS_FAILED_CONNECT \<or> rc = RC_OK \<or> rc = RC_HTTPS_FAILED_GETTING_CERT"
    using assms loop y ssl_open_peer_cert_frame(2) [of e c2 "ssl_get_info e c2 ?h3"]
    by (auto simp: ssl_open_def Let_def call_str_def split: if_splits prod.splits)
  show "\<exists>v. h' = h2 @ v \<and> filter is_tcp_call v = []"
  proof (cases "?r < 0")
    case True
    with assms loop y show ?thesis
      by (auto simp: ssl_open_def Let_def call_str_def call_void_def)
  next
    case False
    obtain u where u: "ssl_get_info e c2 ?h3 = ?h3 @ u" "filter is_tcp_call u = []"
      using ssl_get_info_frame by blast
    obtain w where w: "snd (ssl_open_peer_cert e c2 (?h3 @ u)) = (?h3 @ u) @ w"
        "filter is_tcp_call w = []"
      using ssl_open_peer_cert_frame(1) by blast
    from False assms loop y have "h' = snd (ssl_open_peer_cert e c2 (ssl_get_info e c2 ?h3))"
      by (auto simp: ssl_open_def Let_def split: prod.splits)
    then have "h' = h2 @ (replicate (Suc n) ?hs @ u @ w)"
      using u(1) w(1) by simp
    moreover have "filter is_tcp_call (replicate (Suc n) ?hs @ u @ w) = []"
      using u(2) w(2) by simp
    ultimately show ?thesis by blast
  qed
qed


section \<open>The claims\<close>

text \<open>
  C1. The certificate verification callback reads the stored server name, asks
  for the verification of the peer and then, as long as nothing fails, for the
  certificate type, a parse context, the peer list, the DER import of the leaf
  and the hostname match against the stored name, in this order, each call
  after the trace of the ones before. It returns the library's
  certificate-error sentinel, which is not zero, exactly when verification
  itself fails, the status has the chain-invalid flag, the type is not X.509,
  the parse context cannot be allocated, the peer list is \<open>NULL\<close>, the import
  fails or the hostname does not match; it stops at the first of these, logs
  one error line, and makes none of the later calls. Otherwise it releases the
  parse context and returns zero. The flags signer-not-found, revoked, expired
  and not-activated are none of the seven: each one that is set adds a warning
  line, in this order, and the checks go on.
\<close>

theorem verify_certificate_callback_result:
  "let get = GnutlsSessionGetPtr s;
       hostname = out_str e h get;
       h1 = h @ [get];
       verify = GnutlsCertificateVerifyPeers2 s;
       status = out_uint e h1 verify;
       warnings =
         (if status AND GNUTLS_CERT_SIGNER_NOT_FOUND \<noteq> 0
          then [Logit LOG_WARNING ''The certificate does not have a known issuer.'' []] else []) @
         (if status AND GNUTLS_CERT_REVOKED \<noteq> 0
          then [Logit LOG_WARNING ''The certificate has been revoked.'' []] else []) @
         (if status AND GNUTLS_CERT_EXPIRED \<noteq> 0
          then [Logit LOG_WARNING ''The certificate has expired.'' []] else []) @
         (if status AND GNUTLS_CERT_NOT_ACTIVATED \<noteq> 0
          then [Logit LOG_WARNING ''The certificate is not yet activated.'' []] else []);
       h2 = h1 @ [verify] @ warnings;
       type_get = GnutlsCertificateTypeGet s;
       h3 = h2 @ [type_get];
       cert = out_ptr e h3 GnutlsX509CrtInit;
       h4 = h3 @ [GnutlsX509CrtInit];
       peers = GnutlsCertificateGetPeers s;
       cert_list = out_ptr e h4 peers;
       h5 = h4 @ [peers];
       import = GnutlsX509CrtImport cert cert_list GNUTLS_X509_FMT_DER;
       h6 = h5 @ [import];
       check = GnutlsX509CrtCheckHostname cert hostname;
       h7 = h6 @ [check];
       verification_fails = (ret_int e h1 verify < 0);
       chain_invalid = (status AND GNUTLS_CERT_INVALID \<noteq> 0);
       not_x509 = (ret_int e h2 type_get \<noteq> GNUTLS_CRT_X509);
       no_context = (ret_int e h3 GnutlsX509CrtInit < 0);
       no_certificate = (cert_list = 0);
       import_fails = (ret_int e h5 import < 0);
       name_mismatch = (ret_int e h6 check = 0)
   in verify_certificate_callback e s h =
        (if verification_fails then
           (GNUTLS_E_CERTIFICATE_ERROR,
            h1 @ [verify, Logit LOG_ERR ''Failed verifying certificate peers.'' []])
         else if chain_invalid then
           (GNUTLS_E_CERTIFICATE_ERROR,
            h2 @ [Logit LOG_ERR ''The certificate is not trusted.'' []])
         else if not_x509 then
           (GNUTLS_E_CERTIFICATE_ERROR,
            h3 @ [Logit LOG_ERR ''Not a valid X.509 certificate'' []])
         else if no_context then
           (GNUTLS_E_CERTIFICATE_ERROR,
            h4 @ [Logit LOG_ERR ''Failed init of X.509 cert engine'' []])
         else if no_certificate then
           (GNUTLS_E_CERTIFICATE_ERROR,
            h5 @ [Logit LOG_ERR ''No certificate was found!'' []])
         else if import_fails then
           (GNUTLS_E_CERTIFICATE_ERROR,
            h6 @ [Logit LOG_ERR ''Error while parsing certificate.'' []])
         else if name_mismatch then
           (GNUTLS_E_CERTIFICATE_ERROR,
            h7 @ [Logit LOG_ERR hostname_mismatch_fmt [ArgS hostname]])
         else (0, h7 @ [GnutlsX509CrtDeinit cert])) \<and>
      (fst (verify_certificate_callback e s h) = GNUTLS_E_CERTIFICATE_ERROR \<longleftrightarrow>
         verification_fails \<or> chain_invalid \<or> not_x509 \<or> no_context \<or>
         no_certificate \<or> import_fails \<or> name_mismatch) \<and>
      (fst (verify_certificate_callback e s h) = 0 \<longleftrightarrow>
         \<not> (verification_fails \<or> chain_invalid \<or> not_x509 \<or> no_context \<or>
            no_certificate \<or> import_fails \<or> name_mismatch)) \<and>
      GNUTLS_E_CERTIFICATE_ERROR \<noteq> 0"
  using verify_certificate_callback_explicit [where e = e and s = s and h = h]
  unfolding status_warnings_def .

text \<open>A status with the four warning flags and nothing else (\<open>0x660\<close>): the four
  warnings, every check, and zero. Then the seven failures, one environment for
  each: the sentinel, and no call after the one that failed.\<close>

theorem verify_certificate_callback_witness:
  "verify_certificate_callback (env_status 0x660) 1 [] =
     (0, [GnutlsSessionGetPtr 1, GnutlsCertificateVerifyPeers2 1,
          Logit LOG_WARNING ''The certificate does not have a known issuer.'' [],
          Logit LOG_WARNING ''The certificate has been revoked.'' [],
          Logit LOG_WARNING ''The certificate has expired.'' [],
          Logit LOG_WARNING ''The certificate is not yet activated.'' [],
          GnutlsCertificateTypeGet 1, GnutlsX509CrtInit, GnutlsCertificateGetPeers 1,
          GnutlsX509CrtImport 2 3 GNUTLS_X509_FMT_DER,
          GnutlsX509CrtCheckHostname 2 ''example.com'', GnutlsX509CrtDeinit 2]) \<and>
   verify_certificate_callback (env_answer (GnutlsCertificateVerifyPeers2 1) 0 (- 1)) 1 [] =
     (GNUTLS_E_CERTIFICATE_ERROR,
      [GnutlsSessionGetPtr 1, GnutlsCertificateVerifyPeers2 1,
       Logit LOG_ERR ''Failed verifying certificate peers.'' []]) \<and>
   verify_certificate_callback (env_status 0x2) 1 [] =
     (GNUTLS_E_CERTIFICATE_ERROR,
      [GnutlsSessionGetPtr 1, GnutlsCertificateVerifyPeers2 1,
       Logit LOG_ERR ''The certificate is not trusted.'' []]) \<and>
   verify_certificate_callback (env_answer (GnutlsCertificateTypeGet 1) 0 2) 1 [] =
     (GNUTLS_E_CERTIFICATE_ERROR,
      [GnutlsSessionGetPtr 1, GnutlsCertificateVerifyPeers2 1, GnutlsCertificateTypeGet 1,
       Logit LOG_ERR ''Not a valid X.509 certificate'' []]) \<and>
   verify_certificate_callback (env_answer GnutlsX509CrtInit 0 (- 25)) 1 [] =
     (GNUTLS_E_CERTIFICATE_ERROR,
      [GnutlsSessionGetPtr 1, GnutlsCertificateVerifyPeers2 1, GnutlsCertificateTypeGet 1,
       GnutlsX509CrtInit, Logit LOG_ERR ''Failed init of X.509 cert engine'' []]) \<and>
   verify_certificate_callback env_no_peers 1 [] =
     (GNUTLS_E_CERTIFICATE_ERROR,
      [GnutlsSessionGetPtr 1, GnutlsCertificateVerifyPeers2 1, GnutlsCertificateTypeGet 1,
       GnutlsX509CrtInit, GnutlsCertificateGetPeers 1,
       Logit LOG_ERR ''No certificate was found!'' []]) \<and>
   verify_certificate_callback
       (env_answer (GnutlsX509CrtImport 2 3 GNUTLS_X509_FMT_DER) 0 (- 69)) 1 [] =
     (GNUTLS_E_CERTIFICATE_ERROR,
      [GnutlsSessionGetPtr 1, GnutlsCertificateVerifyPeers2 1, GnutlsCertificateTypeGet 1,
       GnutlsX509CrtInit, GnutlsCertificateGetPeers 1,
       GnutlsX509CrtImport 2 3 GNUTLS_X509_FMT_DER,
       Logit LOG_ERR ''Error while parsing certificate.'' []]) \<and>
   verify_certificate_callback
       (env_answer (GnutlsX509CrtCheckHostname 2 ''example.com'') 0 0) 1 [] =
     (GNUTLS_E_CERTIFICATE_ERROR,
      [GnutlsSessionGetPtr 1, GnutlsCertificateVerifyPeers2 1, GnutlsCertificateTypeGet 1,
       GnutlsX509CrtInit, GnutlsCertificateGetPeers 1,
       GnutlsX509CrtImport 2 3 GNUTLS_X509_FMT_DER,
       GnutlsX509CrtCheckHostname 2 ''example.com'',
       Logit LOG_ERR hostname_mismatch_fmt [ArgS ''example.com'']])"
proof -
  note flags = GNUTLS_CRT_X509_def GNUTLS_CERT_INVALID_def GNUTLS_CERT_SIGNER_NOT_FOUND_def
    GNUTLS_CERT_REVOKED_def GNUTLS_CERT_EXPIRED_def GNUTLS_CERT_NOT_ACTIVATED_def
    GNUTLS_E_AGAIN_def
  note run = verify_certificate_callback_result [where s = 1 and h = "[]"]
  have warned: "verify_certificate_callback (env_status 0x660) 1 [] =
     (0, [GnutlsSessionGetPtr 1, GnutlsCertificateVerifyPeers2 1,
          Logit LOG_WARNING ''The certificate does not have a known issuer.'' [],
          Logit LOG_WARNING ''The certificate has been revoked.'' [],
          Logit LOG_WARNING ''The certificate has expired.'' [],
          Logit LOG_WARNING ''The certificate is not yet activated.'' [],
          GnutlsCertificateTypeGet 1, GnutlsX509CrtInit, GnutlsCertificateGetPeers 1,
          GnutlsX509CrtImport 2 3 GNUTLS_X509_FMT_DER,
          GnutlsX509CrtCheckHostname 2 ''example.com'', GnutlsX509CrtDeinit 2])"
    using run [where e = "env_status 0x660"]
    by (simp add: Let_def env_status_def env_ok_def flags)
  have verification: "verify_certificate_callback
       (env_answer (GnutlsCertificateVerifyPeers2 1) 0 (- 1)) 1 [] =
     (GNUTLS_E_CERTIFICATE_ERROR,
      [GnutlsSessionGetPtr 1, GnutlsCertificateVerifyPeers2 1,
       Logit LOG_ERR ''Failed verifying certificate peers.'' []])"
    using run [where e = "env_answer (GnutlsCertificateVerifyPeers2 1) 0 (- 1)"]
    by (simp add: Let_def env_answer_def env_ok_def flags)
  have invalid: "verify_certificate_callback (env_status 0x2) 1 [] =
     (GNUTLS_E_CERTIFICATE_ERROR,
      [GnutlsSessionGetPtr 1, GnutlsCertificateVerifyPeers2 1,
       Logit LOG_ERR ''The certificate is not trusted.'' []])"
    using run [where e = "env_status 0x2"]
    by (simp add: Let_def env_status_def env_ok_def flags)
  have kind: "verify_certificate_callback (env_answer (GnutlsCertificateTypeGet 1) 0 2) 1 [] =
     (GNUTLS_E_CERTIFICATE_ERROR,
      [GnutlsSessionGetPtr 1, GnutlsCertificateVerifyPeers2 1, GnutlsCertificateTypeGet 1,
       Logit LOG_ERR ''Not a valid X.509 certificate'' []])"
    using run [where e = "env_answer (GnutlsCertificateTypeGet 1) 0 2"]
    by (simp add: Let_def env_answer_def env_ok_def flags)
  have parse: "verify_certificate_callback (env_answer GnutlsX509CrtInit 0 (- 25)) 1 [] =
     (GNUTLS_E_CERTIFICATE_ERROR,
      [GnutlsSessionGetPtr 1, GnutlsCertificateVerifyPeers2 1, GnutlsCertificateTypeGet 1,
       GnutlsX509CrtInit, Logit LOG_ERR ''Failed init of X.509 cert engine'' []])"
    using run [where e = "env_answer GnutlsX509CrtInit 0 (- 25)"]
    by (simp add: Let_def env_answer_def env_ok_def flags)
  have peers: "verify_certificate_callback env_no_peers 1 [] =
     (GNUTLS_E_CERTIFICATE_ERROR,
      [GnutlsSessionGetPtr 1, GnutlsCertificateVerifyPeers2 1, GnutlsCertificateTypeGet 1,
       GnutlsX509CrtInit, GnutlsCertificateGetPeers 1,
       Logit LOG_ERR ''No certificate was found!'' []])"
    using run [where e = env_no_peers]
    by (simp add: Let_def env_no_peers_def env_ok_def flags)
  have der: "verify_certificate_callback
       (env_answer (GnutlsX509CrtImport 2 3 GNUTLS_X509_FMT_DER) 0 (- 69)) 1 [] =
     (GNUTLS_E_CERTIFICATE_ERROR,
      [GnutlsSessionGetPtr 1, GnutlsCertificateVerifyPeers2 1, GnutlsCertificateTypeGet 1,
       GnutlsX509CrtInit, GnutlsCertificateGetPeers 1,
       GnutlsX509CrtImport 2 3 GNUTLS_X509_FMT_DER,
       Logit LOG_ERR ''Error while parsing certificate.'' []])"
    using run [where e = "env_answer (GnutlsX509CrtImport 2 3 GNUTLS_X509_FMT_DER) 0 (- 69)"]
    by (simp add: Let_def env_answer_def env_ok_def flags)
  have mismatch: "verify_certificate_callback
       (env_answer (GnutlsX509CrtCheckHostname 2 ''example.com'') 0 0) 1 [] =
     (GNUTLS_E_CERTIFICATE_ERROR,
      [GnutlsSessionGetPtr 1, GnutlsCertificateVerifyPeers2 1, GnutlsCertificateTypeGet 1,
       GnutlsX509CrtInit, GnutlsCertificateGetPeers 1,
       GnutlsX509CrtImport 2 3 GNUTLS_X509_FMT_DER,
       GnutlsX509CrtCheckHostname 2 ''example.com'',
       Logit LOG_ERR hostname_mismatch_fmt [ArgS ''example.com'']])"
    using run [where e = "env_answer (GnutlsX509CrtCheckHostname 2 ''example.com'') 0 0"]
    by (simp add: Let_def env_answer_def env_ok_def flags)
  from warned verification invalid kind parse peers der mismatch show ?thesis
    by (intro conjI)
qed


text \<open>
  C2. For a handle with TLS disabled, each of the four operations is the direct
  call of the TCP transport: \<open>ssl_open\<close> returns what \<open>tcp_init\<close> returns,
  \<open>ssl_send\<close> what \<open>tcp_send\<close> returns on the same buffer and length, \<open>ssl_recv\<close> what
  \<open>tcp_recv\<close> returns, with the buffer and the length it left, and \<open>ssl_close\<close>
  what \<open>tcp_exit\<close> returns; that call is the only one made, so no TLS operation is
  performed.
\<close>

theorem ssl_disabled_is_tcp:
  assumes "\<not> ssl_enabled client"
  shows
    "ssl_open e client msg h =
       (case tcp_init e (tcp client) msg h of
          ((r, t), h') \<Rightarrow> Some ((r, client\<lparr>tcp := t\<rparr>), h')) \<and>
     ssl_send e client buf len h =
       (case tcp_send e (tcp client) buf len h of
          ((r, t), h') \<Rightarrow> Some ((r, client\<lparr>tcp := t\<rparr>), h')) \<and>
     ssl_recv e client buf buf_len recv_len h =
       (case tcp_recv e (tcp client) buf buf_len recv_len h of
          ((r, t, buf', recv_len'), h') \<Rightarrow> Some ((r, client\<lparr>tcp := t\<rparr>, buf', recv_len'), h')) \<and>
     ssl_close e client h =
       (case tcp_exit e (tcp client) h of
          ((r, t), h') \<Rightarrow> ((r, client\<lparr>tcp := t\<rparr>), h')) \<and>
     map_option snd (ssl_open e client msg h) = Some (h @ [TcpInit msg]) \<and>
     map_option snd (ssl_send e client buf len h) = Some (h @ [TcpSend buf len]) \<and>
     map_option snd (ssl_recv e client buf buf_len recv_len h) = Some (h @ [TcpRecv buf_len]) \<and>
     snd (ssl_close e client h) = h @ [TcpExit]"
  using assms
  by (simp add: ssl_open_def ssl_send_def ssl_recv_def ssl_close_def
        tcp_init_def tcp_send_def tcp_recv_def tcp_exit_def)

theorem ssl_disabled_is_tcp_witness:
  "\<not> ssl_enabled client_plain \<and>
   ssl_open env_ok client_plain ''m'' [] =
     Some ((RC_OK, client_plain\<lparr>tcp := \<lparr>ip_socket = 7, ip_port = 8080\<rparr>\<rparr>), [TcpInit ''m'']) \<and>
   ssl_recv env_ok client_plain ''....'' 4 0 [] =
     Some ((RC_OK, client_plain, ''PONG'', 4), [TcpRecv 4])"
proof -
  have plain: "\<not> ssl_enabled client_plain"
    by (simp add: client_plain_def)
  have init: "tcp_init env_ok (tcp client_plain) ''m'' [] =
      ((RC_OK, \<lparr>ip_socket = 7, ip_port = 8080\<rparr>), [TcpInit ''m''])"
    by (simp add: tcp_init_def env_ok_def client_plain_def tcp_rc_def)
  have recv: "tcp_recv env_ok (tcp client_plain) ''....'' 4 0 [] =
      ((RC_OK, tcp client_plain, ''PONG'', 4), [TcpRecv 4])"
    by (simp add: tcp_recv_def env_ok_def client_plain_def tcp_rc_def write_at_def)
  from ssl_disabled_is_tcp [OF plain, of env_ok "''m''" "[]" "''....''" 4 4 0] init recv plain
  show ?thesis by simp
qed


text \<open>
  C3. On the TLS path, once the session is set up and the TCP connection is
  open, \<open>ssl_open\<close> calls \<open>gnutls_handshake\<close> again, at once and with nothing in
  between, for as long as the answer is \<open>INTERRUPTED\<close> or \<open>AGAIN\<close>. The first other
  answer \<open>r\<close> ends the loop: a negative \<open>r\<close> makes \<open>ssl_open\<close> return
  \<open>HTTPS_FAILED_CONNECT\<close> after logging the library's message for \<open>r\<close>; with \<open>r\<close>
  zero or positive \<open>ssl_open\<close> goes on to the session information and the peer
  certificate, and does not return \<open>HTTPS_FAILED_CONNECT\<close>. Answered with the two
  transient results for ever, \<open>ssl_open\<close> does not return.
\<close>

theorem ssl_open_handshake_loop:
  assumes "ssl_enabled client"
    and "ssl_open_session e client msg h = (Inr sn, c1, h1)"
    and "ssl_open_connect e c1 msg h1 = (None, c2, h2)"
  shows
    "(retried e (GnutlsHandshake (ssl c2)) h2 n \<longrightarrow>
       (let hs = GnutlsHandshake (ssl c2);
            r = ret_int e (h2 @ replicate n hs) hs;
            h3 = h2 @ replicate (Suc n) hs
        in (r < 0 \<longrightarrow>
              ssl_open e client msg h =
                Some ((RC_HTTPS_FAILED_CONNECT, c2),
                      h3 @ [GnutlsStrerror r,
                            Logit LOG_ERR ''SSL handshake with %s failed: %s''
                              [ArgS sn, ArgS (out_str e h3 (GnutlsStrerror r))]])) \<and>
           (0 \<le> r \<longrightarrow>
              ssl_open e client msg h =
                (case ssl_open_peer_cert e c2 (ssl_get_info e c2 h3) of
                   (rc, h4) \<Rightarrow> Some ((rc, c2), h4)) \<and>
              map_option (fst \<circ> fst) (ssl_open e client msg h) \<noteq> Some RC_HTTPS_FAILED_CONNECT))) \<and>
     ((\<forall>i. is_transient (ret_int e (h2 @ replicate i (GnutlsHandshake (ssl c2)))
                           (GnutlsHandshake (ssl c2)))) \<longrightarrow>
       ssl_open e client msg h = None)"
proof (intro conjI impI)
  let ?hs = "GnutlsHandshake (ssl c2)"
  assume "retried e ?hs h2 n"
  then have loop: "retry_loop (call_int e ?hs) h2 =
      Some (ret_int e (h2 @ replicate n ?hs) ?hs, h2 @ replicate (Suc n) ?hs)"
    by (rule retry_call_int)
  have cert: "fst (ssl_open_peer_cert e c2 h') \<noteq> RC_HTTPS_FAILED_CONNECT" for h'
    by (simp add: ssl_open_peer_cert_def gnutls_certificate_get_peers_def
          gnutls_x509_crt_init_def call_int_def call_str_def call_void_def Let_def)
  show "let hs = ?hs; r = ret_int e (h2 @ replicate n hs) hs; h3 = h2 @ replicate (Suc n) hs
        in (r < 0 \<longrightarrow>
              ssl_open e client msg h =
                Some ((RC_HTTPS_FAILED_CONNECT, c2),
                      h3 @ [GnutlsStrerror r,
                            Logit LOG_ERR ''SSL handshake with %s failed: %s''
                              [ArgS sn, ArgS (out_str e h3 (GnutlsStrerror r))]])) \<and>
           (0 \<le> r \<longrightarrow>
              ssl_open e client msg h =
                (case ssl_open_peer_cert e c2 (ssl_get_info e c2 h3) of
                   (rc, h4) \<Rightarrow> Some ((rc, c2), h4)) \<and>
              map_option (fst \<circ> fst) (ssl_open e client msg h) \<noteq> Some RC_HTTPS_FAILED_CONNECT)"
    using assms loop cert [of "ssl_get_info e c2 (h2 @ replicate (Suc n) ?hs)"]
    by (auto simp: ssl_open_def Let_def call_str_def call_void_def split: prod.splits)
next
  let ?hs = "GnutlsHandshake (ssl c2)"
  assume "\<forall>i. is_transient (ret_int e (h2 @ replicate i ?hs) ?hs)"
  then have "retry_loop (call_int e ?hs) h2 = None"
    by (rule retry_call_int_None)
  with assms show "ssl_open e client msg h = None"
    by (simp add: ssl_open_def)
qed

text \<open>Two \<open>AGAIN\<close> answers and then \<open>- 110\<close> (the connection was closed early): three
  handshake calls in a row, then \<open>HTTPS_FAILED_CONNECT\<close>. Two \<open>AGAIN\<close> answers and
  then 0: the same three calls, then the certificate, and \<open>RC_OK\<close>.\<close>

theorem ssl_open_handshake_loop_witness:
  "ssl_enabled client_tls \<and>
   retried (env_answer (GnutlsHandshake 1) 2 (- 110)) (GnutlsHandshake 1)
     [Logit LOG_INFO ''%s, initiating HTTPS ...'' [ArgS ''m''], GnutlsInit,
      HttpGetRemoteName, GnutlsSessionSetPtr 1 ''example.com'',
      GnutlsServerNameSet 1 ''example.com'' 11, GnutlsPrioritySetDirect 1 ''NORMAL'',
      GnutlsCredentialsSet 1, TcpSetPort 443, TcpInit ''m'', GnutlsTransportSetPtr 1 7] 2 \<and>
   ssl_open (env_answer (GnutlsHandshake 1) 2 (- 110)) client_tls ''m'' [] =
     Some ((RC_HTTPS_FAILED_CONNECT, client_open),
       [Logit LOG_INFO ''%s, initiating HTTPS ...'' [ArgS ''m''], GnutlsInit,
        HttpGetRemoteName, GnutlsSessionSetPtr 1 ''example.com'',
        GnutlsServerNameSet 1 ''example.com'' 11, GnutlsPrioritySetDirect 1 ''NORMAL'',
        GnutlsCredentialsSet 1, TcpSetPort 443, TcpInit ''m'', GnutlsTransportSetPtr 1 7,
        GnutlsHandshake 1, GnutlsHandshake 1, GnutlsHandshake 1, GnutlsStrerror (- 110),
        Logit LOG_ERR ''SSL handshake with %s failed: %s'' [ArgS ''example.com'', ArgS ''error'']]) \<and>
   map_option (fst \<circ> fst) (ssl_open (env_answer (GnutlsHandshake 1) 2 0) client_tls ''m'' []) =
     Some RC_OK"
proof -
  let ?e = "env_answer (GnutlsHandshake 1) 2 (- 110)"
  let ?ez = "env_answer (GnutlsHandshake 1) 2 0"
  let ?h1 = "[Logit LOG_INFO ''%s, initiating HTTPS ...'' [ArgS ''m''], GnutlsInit,
      HttpGetRemoteName, GnutlsSessionSetPtr 1 ''example.com'',
      GnutlsServerNameSet 1 ''example.com'' 11, GnutlsPrioritySetDirect 1 ''NORMAL'',
      GnutlsCredentialsSet 1]"
  let ?h2 = "?h1 @ [TcpSetPort 443, TcpInit ''m'', GnutlsTransportSetPtr 1 7]"
  let ?c1 = "client_tls\<lparr>ssl := 1\<rparr>"
  have tls: "ssl_enabled client_tls"
    by (simp add: client_tls_def)
  have session: "ssl_open_session ?e client_tls ''m'' [] = (Inr ''example.com'', ?c1, ?h1)"
    by code_simp
  have connect: "ssl_open_connect ?e ?c1 ''m'' ?h1 = (None, client_open, ?h2)"
    by code_simp
  have session0: "ssl_open_session ?ez client_tls ''m'' [] = (Inr ''example.com'', ?c1, ?h1)"
    by code_simp
  have connect0: "ssl_open_connect ?ez ?c1 ''m'' ?h1 = (None, client_open, ?h2)"
    by code_simp
  have open1: "ssl client_open = 1"
    by (simp add: client_open_def)
  have again: "retried ?e (GnutlsHandshake 1) ?h2 2"
    by code_simp
  have again0: "retried ?ez (GnutlsHandshake 1) ?h2 2"
    by code_simp
  have answer: "ret_int ?e (?h2 @ replicate 2 (GnutlsHandshake 1)) (GnutlsHandshake 1) = - 110"
    by code_simp
  have answer0: "ret_int ?ez (?h2 @ replicate 2 (GnutlsHandshake 1)) (GnutlsHandshake 1) = 0"
    by code_simp
  have rep: "replicate 2 x = [x, x]" "replicate 3 x = [x, x, x]" for x :: call
    by (simp_all add: numeral_2_eq_2 numeral_3_eq_3)
  have message: "out_str (env_answer c k r') h' (GnutlsStrerror r) = ''error''" for c k r' h' r
    by (simp add: env_answer_def env_ok_def)
  have cert: "fst (ssl_open_peer_cert ?ez client_open
      (ssl_get_info ?ez client_open (?h2 @ replicate (Suc 2) (GnutlsHandshake 1)))) = RC_OK"
    by code_simp
  have failed: "ssl_open ?e client_tls ''m'' [] =
     Some ((RC_HTTPS_FAILED_CONNECT, client_open),
       ?h2 @ [GnutlsHandshake 1, GnutlsHandshake 1, GnutlsHandshake 1, GnutlsStrerror (- 110),
        Logit LOG_ERR ''SSL handshake with %s failed: %s'' [ArgS ''example.com'', ArgS ''error'']])"
    using ssl_open_handshake_loop [OF tls session connect, of 2] again answer
    by (simp add: open1 message Let_def rep)
  have "map_option (fst \<circ> fst) (ssl_open ?ez client_tls ''m'' []) = Some RC_OK"
    using ssl_open_handshake_loop [OF tls session0 connect0, of 2] again0 answer0 cert
    by (simp add: open1 Let_def rep split: prod.splits)
  with tls again failed show ?thesis by simp
qed


text \<open>
  C4, as the claim states it, fails: one non-negative result of the record send
  makes \<open>ssl_send\<close> return 0, but the peer need not have the whole buffer. A buffer
  of \<open>2 ^ 14 + 1\<close> bytes, of which the record layer takes \<open>2 ^ 14\<close>: \<open>ssl_send\<close>
  returns 0 after that one call, and the last byte was never sent.
\<close>

theorem ssl_send_whole_buffer_counterexample:
  "ssl_enabled client_open \<and>
   int (length (replicate 16385 (CHR ''a''))) = 16385 \<and>
   ret_int env_record_limit [] (GnutlsRecordSend 1 (replicate 16385 (CHR ''a'')) 16385) = 16384 \<and>
   ssl_send env_record_limit client_open (replicate 16385 (CHR ''a'')) 16385 [] =
     Some ((RC_OK, client_open),
       [GnutlsRecordSend 1 (replicate 16385 (CHR ''a'')) 16385,
        Logit LOG_DEBUG ''Successfully sent DDNS update using HTTPS!'' []]) \<and>
   record_sent env_record_limit []
       [GnutlsRecordSend 1 (replicate 16385 (CHR ''a'')) 16385,
        Logit LOG_DEBUG ''Successfully sent DDNS update using HTTPS!'' []] =
     replicate 16384 (CHR ''a'') \<and>
   replicate 16384 (CHR ''a'') \<noteq> replicate 16385 (CHR ''a'')"
proof -
  let ?buf = "replicate 16385 (CHR ''a'')"
  let ?c = "GnutlsRecordSend 1 ?buf 16385"
  have answer: "ret_int env_record_limit h (GnutlsRecordSend s ?buf 16385) = 16384" for h s
    by (simp add: env_record_limit_def)
  have "\<not> is_transient (ret_int env_record_limit [] ?c)"
    unfolding answer by (simp add: is_transient_def GNUTLS_E_AGAIN_def GNUTLS_E_INTERRUPTED_def)
  then have "retried env_record_limit ?c [] 0"
    by (simp add: retried_0)
  from retry_call_int [OF this]
  have loop: "retry_loop (call_int env_record_limit ?c) [] = Some (16384, [?c])"
    by (simp add: answer)
  have "ssl_send env_record_limit client_open ?buf 16385 [] =
     Some ((RC_OK, client_open),
       [?c, Logit LOG_DEBUG ''Successfully sent DDNS update using HTTPS!'' []])"
    using loop by (simp add: ssl_send_def client_open_def call_void_def)
  then show ?thesis
    by (simp add: answer client_open_def)
qed

text \<open>
  C4, amended. On the TLS path, when the retry-looped record send ends with a
  result \<open>r\<close> that is not negative, \<open>ssl_send\<close> returns 0 after these attempts and
  one log line; what was sent is the first \<open>r\<close> bytes of the buffer, in order, so
  the whole buffer when \<open>r\<close> is its length, and \<open>ssl_send\<close> makes no call for the
  rest. When the result is negative, \<open>ssl_send\<close> returns \<open>HTTPS_SEND_ERROR\<close> and
  nothing was sent.
\<close>

theorem ssl_send_one_record:
  assumes "ssl_enabled client"
    and "retried e (GnutlsRecordSend (ssl client) buf len) h n"
  shows
    "let c = GnutlsRecordSend (ssl client) buf len;
         r = ret_int e (h @ replicate n c) c;
         t = replicate (Suc n) c;
         line = Logit LOG_DEBUG ''Successfully sent DDNS update using HTTPS!'' []
     in (0 \<le> r \<longrightarrow>
           ssl_send e client buf len h = Some ((RC_OK, client), h @ t @ [line]) \<and>
           record_sent e h (t @ [line]) = take (nat r) buf \<and>
           (record_sent e h (t @ [line]) = buf \<longleftrightarrow> length buf \<le> nat r)) \<and>
        (r < 0 \<longrightarrow>
           ssl_send e client buf len h = Some ((RC_HTTPS_SEND_ERROR, client), h @ t) \<and>
           record_sent e h t = [])"
proof -
  let ?c = "GnutlsRecordSend (ssl client) buf len"
  let ?line = "Logit LOG_DEBUG ''Successfully sent DDNS update using HTTPS!'' []"
  have loop: "retry_loop (call_int e ?c) h =
      Some (ret_int e (h @ replicate n ?c) ?c, h @ replicate (Suc n) ?c)"
    using assms(2) by (rule retry_call_int)
  have sent: "record_sent e h (replicate (Suc n) ?c @ cs) =
      (let r = ret_int e (h @ replicate n ?c) ?c in if 0 \<le> r then take (nat r) buf else []) @
      record_sent e (h @ replicate (Suc n) ?c) cs" for cs
    using assms(2) by (rule record_sent_retried)
  have whole: "take k buf = buf \<longleftrightarrow> length buf \<le> k" for k
    by (metis take_all_iff)
  show ?thesis
    using assms(1) loop sent [of "[?line]"] sent [of "[]"]
    by (simp add: ssl_send_def Let_def call_void_def whole del: replicate.simps)
qed

text \<open>One \<open>AGAIN\<close>, then three of the five bytes: \<open>ssl_send\<close> returns 0 and the peer
  has \<open>hel\<close>.\<close>

theorem ssl_send_one_record_witness:
  "ssl_enabled client_open \<and>
   retried (env_answer (GnutlsRecordSend 1 ''hello'' 5) 1 3) (GnutlsRecordSend 1 ''hello'' 5) [] 1 \<and>
   ssl_send (env_answer (GnutlsRecordSend 1 ''hello'' 5) 1 3) client_open ''hello'' 5 [] =
     Some ((RC_OK, client_open),
       [GnutlsRecordSend 1 ''hello'' 5, GnutlsRecordSend 1 ''hello'' 5,
        Logit LOG_DEBUG ''Successfully sent DDNS update using HTTPS!'' []]) \<and>
   record_sent (env_answer (GnutlsRecordSend 1 ''hello'' 5) 1 3) []
       [GnutlsRecordSend 1 ''hello'' 5, GnutlsRecordSend 1 ''hello'' 5,
        Logit LOG_DEBUG ''Successfully sent DDNS update using HTTPS!'' []] = ''hel''"
proof -
  let ?env = "env_answer (GnutlsRecordSend 1 ''hello'' 5) 1 3"
  have tls: "ssl_enabled client_open" and session: "ssl client_open = 1"
    by (simp_all add: client_open_def)
  have again: "retried ?env (GnutlsRecordSend (ssl client_open) ''hello'' 5) [] 1"
    unfolding session by code_simp
  have r: "ret_int ?env ([] @ replicate 1 (GnutlsRecordSend 1 ''hello'' 5))
      (GnutlsRecordSend 1 ''hello'' 5) = 3"
    by code_simp
  have three: "take (nat 3) ''hello'' = ''hel''"
    by code_simp
  from ssl_send_one_record [OF tls again] r three again tls show ?thesis
    by (simp add: session Let_def)
qed


text \<open>
  C5. On the TLS path \<open>ssl_recv\<close> makes two retry-looped record reads and no
  other call. The first reads at offset 0 with capacity \<open>buf_len\<close>; when its
  final result \<open>r1\<close> is negative, \<open>ssl_recv\<close> returns \<open>HTTPS_RECV_ERROR\<close>. Otherwise
  the second reads at offset \<open>r1\<close>, the end of the first, with the remaining
  capacity \<open>buf_len - r1\<close>; when its final result \<open>r2\<close> is negative, \<open>ssl_recv\<close>
  returns \<open>HTTPS_RECV_ERROR\<close>, and otherwise it returns 0 with \<open>r1 + r2\<close> in
  \<open>*recv_len\<close>. The caller's buffer holds what these reads wrote, one after the
  other, into the content it had before the call (\<open>recv_fill\<close>): the writes of the
  first loop, then those of the second.
\<close>

theorem ssl_recv_two_reads:
  assumes "ssl_enabled client"
    and "retried e (GnutlsRecordRecv (ssl client) 0 buf_len) h n1"
  shows
    "let c1 = GnutlsRecordRecv (ssl client) 0 buf_len;
         r1 = ret_int e (h @ replicate n1 c1) c1;
         h1 = h @ replicate (Suc n1) c1;
         b1 = recv_fill e c1 h (Suc n1) buf;
         c2 = GnutlsRecordRecv (ssl client) r1 (buf_len - r1)
     in (r1 < 0 \<longrightarrow>
           ssl_recv e client buf buf_len recv_len h =
             Some ((RC_HTTPS_RECV_ERROR, client, b1, recv_len), h1)) \<and>
        (0 \<le> r1 \<and> retried e c2 h1 n2 \<longrightarrow>
           (let r2 = ret_int e (h1 @ replicate n2 c2) c2;
                h2 = h1 @ replicate (Suc n2) c2;
                b2 = recv_fill e c2 h1 (Suc n2) b1
            in (r2 < 0 \<longrightarrow>
                  ssl_recv e client buf buf_len recv_len h =
                    Some ((RC_HTTPS_RECV_ERROR, client, b2, recv_len), h2)) \<and>
               (0 \<le> r2 \<longrightarrow>
                  ssl_recv e client buf buf_len recv_len h =
                    Some ((RC_OK, client, b2, r1 + r2),
                          h2 @ [Logit LOG_DEBUG
                            ''Successfully received DDNS update response (%d bytes) using HTTPS!''
                            [ArgI (r1 + r2)]]))))"
proof -
  define c1 where "c1 = GnutlsRecordRecv (ssl client) 0 buf_len"
  define r1 where "r1 = ret_int e (h @ replicate n1 c1) c1"
  define h1 where "h1 = h @ replicate (Suc n1) c1"
  define b1 where "b1 = recv_fill e c1 h (Suc n1) buf"
  define c2 where "c2 = GnutlsRecordRecv (ssl client) r1 (buf_len - r1)"
  define r2 where "r2 = ret_int e (h1 @ replicate n2 c2) c2"
  define h2 where "h2 = h1 @ replicate (Suc n2) c2"
  define b2 where "b2 = recv_fill e c2 h1 (Suc n2) b1"
  have first: "retry_loop (recv_header e (ssl client) buf_len) (buf, h) = Some (r1, b1, h1)"
    using retry_recv_header [OF assms(2), of buf]
    unfolding c1_def r1_def h1_def b1_def .
  have A: "ssl_recv e client buf buf_len recv_len h =
             Some ((RC_HTTPS_RECV_ERROR, client, b1, recv_len), h1)" if "r1 < 0"
    using assms(1) first that by (simp add: ssl_recv_def)
  have B: "(r2 < 0 \<longrightarrow>
              ssl_recv e client buf buf_len recv_len h =
                Some ((RC_HTTPS_RECV_ERROR, client, b2, recv_len), h2)) \<and>
           (0 \<le> r2 \<longrightarrow>
              ssl_recv e client buf buf_len recv_len h =
                Some ((RC_OK, client, b2, r1 + r2),
                      h2 @ [Logit LOG_DEBUG
                        ''Successfully received DDNS update response (%d bytes) using HTTPS!''
                        [ArgI (r1 + r2)]]))"
    if "0 \<le> r1" and again: "retried e c2 h1 n2"
  proof -
    have second:
      "retry_loop (recv_body e (ssl client)) (r1, buf_len - r1, b1, h1) =
         Some (r2, if 0 \<le> r2 then r1 + r2 else r1,
               if 0 \<le> r2 then buf_len - r1 - r2 else buf_len - r1, b2, h2)"
      using retry_recv_body [OF again [unfolded c2_def], of b1]
      unfolding c2_def r2_def h2_def b2_def Let_def .
    show ?thesis
      using assms(1) first second \<open>0 \<le> r1\<close>
      by (simp add: ssl_recv_def call_void_def)
  qed
  from A B show ?thesis
    unfolding Let_def c1_def r1_def h1_def b1_def c2_def r2_def h2_def b2_def by blast
qed

text \<open>The first read brings the five bytes \<open>HTTP/\<close> at once; the second is
  answered \<open>AGAIN\<close> once, writing nothing, and then brings the three bytes \<open>1.1\<close>:
  three record reads, \<open>HTTP/1.1\<close> in the buffer of eight bytes, and 8 in
  \<open>*recv_len\<close>.\<close>

theorem ssl_recv_two_reads_witness:
  "ssl_enabled client_open \<and>
   retried (env_answer (GnutlsRecordRecv 1 5 3) 1 3) (GnutlsRecordRecv 1 0 8) [] 0 \<and>
   retried (env_answer (GnutlsRecordRecv 1 5 3) 1 3) (GnutlsRecordRecv 1 5 3)
     [GnutlsRecordRecv 1 0 8] 1 \<and>
   ssl_recv (env_answer (GnutlsRecordRecv 1 5 3) 1 3) client_open ''........'' 8 0 [] =
      Some ((RC_OK, client_open, ''HTTP/1.1'', 8),
        [GnutlsRecordRecv 1 0 8, GnutlsRecordRecv 1 5 3, GnutlsRecordRecv 1 5 3,
         Logit LOG_DEBUG ''Successfully received DDNS update response (%d bytes) using HTTPS!''
           [ArgI 8]])"
proof -
  let ?env = "env_answer (GnutlsRecordRecv 1 5 3) 1 3"
  have tls: "ssl_enabled client_open" and session: "ssl client_open = 1"
    by (simp_all add: client_open_def)
  have first: "retried ?env (GnutlsRecordRecv (ssl client_open) 0 8) [] 0"
    unfolding session by code_simp
  have r1: "ret_int ?env ([] @ replicate 0 (GnutlsRecordRecv 1 0 8)) (GnutlsRecordRecv 1 0 8) = 5"
    by code_simp
  have b1: "recv_fill ?env (GnutlsRecordRecv 1 0 8) [] (Suc 0) ''........'' = ''HTTP/...''"
    by code_simp
  have second: "retried ?env (GnutlsRecordRecv 1 5 3) [GnutlsRecordRecv 1 0 8] 1"
    by code_simp
  have r2: "ret_int ?env ([GnutlsRecordRecv 1 0 8] @ replicate 1 (GnutlsRecordRecv 1 5 3))
      (GnutlsRecordRecv 1 5 3) = 3"
    by code_simp
  have b2: "recv_fill ?env (GnutlsRecordRecv 1 5 3) [GnutlsRecordRecv 1 0 8] (Suc 1) ''HTTP/...'' =
      ''HTTP/1.1''"
    by code_simp
  from ssl_recv_two_reads [OF tls first, where buf = "''........''" and recv_len = 0 and ?n2.0 = 1]
    r1 r2 b1 b2 second
  have "ssl_recv ?env client_open ''........'' 8 0 [] =
      Some ((RC_OK, client_open, ''HTTP/1.1'', 8),
        [GnutlsRecordRecv 1 0 8, GnutlsRecordRecv 1 5 3, GnutlsRecordRecv 1 5 3,
         Logit LOG_DEBUG ''Successfully received DDNS update response (%d bytes) using HTTPS!''
           [ArgI 8]])"
    by (simp add: session Let_def)
  with tls first second show ?thesis
    unfolding session by blast
qed


text \<open>
  C6. \<open>ssl_close\<close> with TLS enabled issues the write-direction shutdown and
  destroys the session, then closes the TCP connection; without TLS it only closes
  the TCP connection. In every case \<open>tcp_exit\<close> is the last call and its status is
  what \<open>ssl_close\<close> returns: no result of a GnuTLS call, the one of the shutdown
  included, has any part in it.
\<close>

theorem ssl_close_returns_tcp_exit:
  "ssl_close e client h =
     (case tcp_exit e (tcp client)
             (if ssl_enabled client
              then h @ [GnutlsBye (ssl client) GNUTLS_SHUT_WR, GnutlsDeinit (ssl client)]
              else h) of
        ((r, t), h') \<Rightarrow> ((r, client\<lparr>tcp := t\<rparr>), h')) \<and>
   snd (ssl_close e client h) =
     (if ssl_enabled client
      then h @ [GnutlsBye (ssl client) GNUTLS_SHUT_WR, GnutlsDeinit (ssl client), TcpExit]
      else h @ [TcpExit]) \<and>
   fst (fst (ssl_close e client h)) = tcp_rc (ret_tcp e (butlast (snd (ssl_close e client h))) TcpExit) \<and>
   (\<forall>f. ssl_close (e\<lparr>ret_int := f\<rparr>) client h = ssl_close e client h)"
  by (simp add: ssl_close_def tcp_exit_def call_int_def call_void_def Let_def)

text \<open>A shutdown that fails (\<open>- 10\<close>) and a \<open>tcp_exit\<close> that succeeds: the result
  is \<open>RC_OK\<close>.\<close>

theorem ssl_close_returns_tcp_exit_witness:
  "ret_int (env_answer (GnutlsBye 1 GNUTLS_SHUT_WR) 0 (- 10)) [] (GnutlsBye 1 GNUTLS_SHUT_WR) < 0 \<and>
   ssl_close (env_answer (GnutlsBye 1 GNUTLS_SHUT_WR) 0 (- 10)) client_open [] =
     ((RC_OK, client_open\<lparr>tcp := \<lparr>ip_socket = - 1, ip_port = 443\<rparr>\<rparr>),
      [GnutlsBye 1 GNUTLS_SHUT_WR, GnutlsDeinit 1, TcpExit])"
  using ssl_close_returns_tcp_exit
          [of "env_answer (GnutlsBye 1 GNUTLS_SHUT_WR) 0 (- 10)" client_open "[]"]
  by (simp add: env_answer_def env_ok_def client_open_def tcp_exit_def tcp_rc_def)


text \<open>
  C7. On the TLS path, once the session is set up (which makes no call to the
  TCP transport), \<open>ssl_open\<close> calls \<open>tcp_set_port\<close> with 443 and, right after it,
  \<open>tcp_init\<close> on the socket structure that \<open>tcp_set_port\<close> left; these are the only
  calls to the TCP transport it makes. When \<open>tcp_init\<close> fails, \<open>ssl_open\<close> returns
  its code, unchanged, right there. With TLS disabled there is no \<open>tcp_set_port\<close>:
  \<open>tcp_init\<close> is the only call, on the structure as the caller configured it.
\<close>

theorem ssl_open_port_443:
  "(ssl_enabled client \<and> ssl_open_session e client msg h = (Inr sn, c1, h1) \<longrightarrow>
      (let t1 = out_tcp e h1 (TcpSetPort 443) (tcp client);
           rc = tcp_rc (ret_tcp e (h1 @ [TcpSetPort 443]) (TcpInit msg));
           t2 = out_tcp e (h1 @ [TcpSetPort 443]) (TcpInit msg) t1
       in (\<exists>u. h1 = h @ u \<and> filter is_tcp_call u = []) \<and>
          (rc \<noteq> RC_OK \<longrightarrow>
             ssl_open e client msg h =
               Some ((rc, c1\<lparr>tcp := t2\<rparr>), h1 @ [TcpSetPort 443, TcpInit msg])) \<and>
          (\<forall>res h'. ssl_open e client msg h = Some (res, h') \<longrightarrow>
             tcp (snd res) = t2 \<and>
             (\<exists>v. h' = h1 @ [TcpSetPort 443, TcpInit msg] @ v \<and> filter is_tcp_call v = [])))) \<and>
   (\<not> ssl_enabled client \<longrightarrow>
      ssl_open e client msg h =
        Some ((tcp_rc (ret_tcp e h (TcpInit msg)),
               client\<lparr>tcp := out_tcp e h (TcpInit msg) (tcp client)\<rparr>), h @ [TcpInit msg]))"
proof (intro conjI impI)
  assume "\<not> ssl_enabled client"
  then show "ssl_open e client msg h =
        Some ((tcp_rc (ret_tcp e h (TcpInit msg)),
               client\<lparr>tcp := out_tcp e h (TcpInit msg) (tcp client)\<rparr>), h @ [TcpInit msg])"
    by (simp add: ssl_open_def tcp_init_def)
next
  assume a: "ssl_enabled client \<and> ssl_open_session e client msg h = (Inr sn, c1, h1)"
  then have tls: "ssl_enabled client"
    and session: "ssl_open_session e client msg h = (Inr sn, c1, h1)"
    by simp_all
  define t1 where "t1 = out_tcp e h1 (TcpSetPort 443) (tcp client)"
  define rc where "rc = tcp_rc (ret_tcp e (h1 @ [TcpSetPort 443]) (TcpInit msg))"
  define t2 where "t2 = out_tcp e (h1 @ [TcpSetPort 443]) (TcpInit msg) t1"
  have same: "tcp c1 = tcp client"
    using session by (rule ssl_open_session_frame(1))
  have before: "\<exists>u. h1 = h @ u \<and> filter is_tcp_call u = []"
    using session by (rule ssl_open_session_frame(2))
  have connect: "ssl_open_connect e c1 msg h1 =
      (if rc \<noteq> RC_OK then (Some rc, c1\<lparr>tcp := t2\<rparr>, h1 @ [TcpSetPort 443, TcpInit msg])
       else (None, c1\<lparr>tcp := t2\<rparr>,
             h1 @ [TcpSetPort 443, TcpInit msg, GnutlsTransportSetPtr (ssl c1) (ip_socket t2)]))"
    unfolding ssl_open_connect_result rc_def t2_def t1_def same by (simp add: Let_def)
  have fails: "ssl_open e client msg h =
      Some ((rc, c1\<lparr>tcp := t2\<rparr>), h1 @ [TcpSetPort 443, TcpInit msg])" if "rc \<noteq> RC_OK"
    using tls session connect that by (simp add: ssl_open_def)
  have every: "tcp (snd res) = t2 \<and>
      (\<exists>v. h' = h1 @ [TcpSetPort 443, TcpInit msg] @ v \<and> filter is_tcp_call v = [])"
    if run: "ssl_open e client msg h = Some (res, h')" for res h'
  proof (cases "rc = RC_OK")
    case False
    with fails run show ?thesis by auto
  next
    case True
    let ?h2 = "h1 @ [TcpSetPort 443, TcpInit msg, GnutlsTransportSetPtr (ssl c1) (ip_socket t2)]"
    from True connect have c: "ssl_open_connect e c1 msg h1 = (None, c1\<lparr>tcp := t2\<rparr>, ?h2)"
      by simp
    obtain r c' where res: "res = (r, c')" by (cases res)
    from ssl_open_after_connect(1,3) [OF tls session c run [unfolded res]]
    obtain v where v: "h' = ?h2 @ v" "filter is_tcp_call v = []" and c': "c' = c1\<lparr>tcp := t2\<rparr>"
      by blast
    have "h' = h1 @ [TcpSetPort 443, TcpInit msg] @
        (GnutlsTransportSetPtr (ssl c1) (ip_socket t2) # v)"
      using v(1) by simp
    moreover have "filter is_tcp_call (GnutlsTransportSetPtr (ssl c1) (ip_socket t2) # v) = []"
      using v(2) by simp
    ultimately show ?thesis
      unfolding res using c' by auto
  qed
  show "let t1 = out_tcp e h1 (TcpSetPort 443) (tcp client);
           rc = tcp_rc (ret_tcp e (h1 @ [TcpSetPort 443]) (TcpInit msg));
           t2 = out_tcp e (h1 @ [TcpSetPort 443]) (TcpInit msg) t1
       in (\<exists>u. h1 = h @ u \<and> filter is_tcp_call u = []) \<and>
          (rc \<noteq> RC_OK \<longrightarrow>
             ssl_open e client msg h =
               Some ((rc, c1\<lparr>tcp := t2\<rparr>), h1 @ [TcpSetPort 443, TcpInit msg])) \<and>
          (\<forall>res h'. ssl_open e client msg h = Some (res, h') \<longrightarrow>
             tcp (snd res) = t2 \<and>
             (\<exists>v. h' = h1 @ [TcpSetPort 443, TcpInit msg] @ v \<and> filter is_tcp_call v = []))"
    using before fails every
    unfolding Let_def rc_def t2_def t1_def by blast
qed

text \<open>A \<open>tcp_init\<close> that fails with the code 13 of the transport: \<open>ssl_open\<close> returns
  that code right after \<open>tcp_set_port\<close> with 443 and \<open>tcp_init\<close>. The handle was
  configured for port 8080; the structure \<open>tcp_init\<close> worked on has port 443.\<close>

theorem ssl_open_port_443_witness:
  "ssl_enabled client_tls \<and>
   ssl_open_session env_tcp_fails client_tls ''m'' [] =
     (Inr ''example.com'', client_tls\<lparr>ssl := 1\<rparr>,
      [Logit LOG_INFO ''%s, initiating HTTPS ...'' [ArgS ''m''], GnutlsInit,
       HttpGetRemoteName, GnutlsSessionSetPtr 1 ''example.com'',
       GnutlsServerNameSet 1 ''example.com'' 11, GnutlsPrioritySetDirect 1 ''NORMAL'',
       GnutlsCredentialsSet 1]) \<and>
   ip_port (tcp client_tls) = 8080 \<and>
   ssl_open env_tcp_fails client_tls ''m'' [] =
     Some ((RC_LOWER 13, client_tls\<lparr>ssl := 1, tcp := \<lparr>ip_socket = 7, ip_port = 443\<rparr>\<rparr>),
       [Logit LOG_INFO ''%s, initiating HTTPS ...'' [ArgS ''m''], GnutlsInit,
        HttpGetRemoteName, GnutlsSessionSetPtr 1 ''example.com'',
        GnutlsServerNameSet 1 ''example.com'' 11, GnutlsPrioritySetDirect 1 ''NORMAL'',
        GnutlsCredentialsSet 1, TcpSetPort 443, TcpInit ''m''])"
proof -
  let ?h1 = "[Logit LOG_INFO ''%s, initiating HTTPS ...'' [ArgS ''m''], GnutlsInit,
       HttpGetRemoteName, GnutlsSessionSetPtr 1 ''example.com'',
       GnutlsServerNameSet 1 ''example.com'' 11, GnutlsPrioritySetDirect 1 ''NORMAL'',
       GnutlsCredentialsSet 1]"
  have tls: "ssl_enabled client_tls" and port: "ip_port (tcp client_tls) = 8080"
    by (simp_all add: client_tls_def)
  have session: "ssl_open_session env_tcp_fails client_tls ''m'' [] =
      (Inr ''example.com'', client_tls\<lparr>ssl := 1\<rparr>, ?h1)"
    by code_simp
  have rc: "tcp_rc (ret_tcp env_tcp_fails (?h1 @ [TcpSetPort 443]) (TcpInit ''m'')) = RC_LOWER 13"
    by code_simp
  have t2: "out_tcp env_tcp_fails (?h1 @ [TcpSetPort 443]) (TcpInit ''m'')
      (out_tcp env_tcp_fails ?h1 (TcpSetPort 443) (tcp client_tls)) =
      \<lparr>ip_socket = 7, ip_port = 443\<rparr>"
    by code_simp
  let ?rc = "tcp_rc (ret_tcp env_tcp_fails (?h1 @ [TcpSetPort 443]) (TcpInit ''m''))"
  let ?t2 = "out_tcp env_tcp_fails (?h1 @ [TcpSetPort 443]) (TcpInit ''m'')
      (out_tcp env_tcp_fails ?h1 (TcpSetPort 443) (tcp client_tls))"
  have "?rc \<noteq> RC_OK \<longrightarrow>
      ssl_open env_tcp_fails client_tls ''m'' [] =
        Some ((?rc, client_tls\<lparr>ssl := 1\<rparr>\<lparr>tcp := ?t2\<rparr>), ?h1 @ [TcpSetPort 443, TcpInit ''m''])"
    using ssl_open_port_443 [of client_tls env_tcp_fails "''m''" "[]" "''example.com''"
        "client_tls\<lparr>ssl := 1\<rparr>" ?h1, THEN conjunct1, rule_format, OF conjI [OF tls session]]
    unfolding Let_def by (elim conjE)
  then have "ssl_open env_tcp_fails client_tls ''m'' [] =
     Some ((RC_LOWER 13, client_tls\<lparr>ssl := 1, tcp := \<lparr>ip_socket = 7, ip_port = 443\<rparr>\<rparr>),
       ?h1 @ [TcpSetPort 443, TcpInit ''m''])"
    unfolding rc t2 by simp
  with tls session port show ?thesis by simp
qed


text \<open>
  C8, as the claim states it, fails: after a successful handshake with a
  non-empty peer certificate list, a failure to parse the peer certificate does
  not make \<open>ssl_open\<close> return \<open>HTTPS_FAILED_GETTING_CERT\<close>. The result of
  \<open>gnutls_x509_crt_import\<close> is not looked at: here the import fails with \<open>- 69\<close> (a
  DER error), and \<open>ssl_open\<close> logs the two names, and returns 0.
\<close>

theorem ssl_open_import_failure_counterexample:
  "0 < out_uint (env_answer (GnutlsX509CrtImport 2 3 GNUTLS_X509_FMT_DER) 0 (- 69))
         [Logit LOG_INFO ''%s, initiating HTTPS ...'' [ArgS ''m''], GnutlsInit,
          HttpGetRemoteName, GnutlsSessionSetPtr 1 ''example.com'',
          GnutlsServerNameSet 1 ''example.com'' 11, GnutlsPrioritySetDirect 1 ''NORMAL'',
          GnutlsCredentialsSet 1, TcpSetPort 443, TcpInit ''m'', GnutlsTransportSetPtr 1 7,
          GnutlsHandshake 1]
         (GnutlsCertificateGetPeers 1) \<and>
   ret_int (env_answer (GnutlsX509CrtImport 2 3 GNUTLS_X509_FMT_DER) 0 (- 69))
         [Logit LOG_INFO ''%s, initiating HTTPS ...'' [ArgS ''m''], GnutlsInit,
          HttpGetRemoteName, GnutlsSessionSetPtr 1 ''example.com'',
          GnutlsServerNameSet 1 ''example.com'' 11, GnutlsPrioritySetDirect 1 ''NORMAL'',
          GnutlsCredentialsSet 1, TcpSetPort 443, TcpInit ''m'', GnutlsTransportSetPtr 1 7,
          GnutlsHandshake 1, GnutlsCertificateGetPeers 1, GnutlsX509CrtInit]
         (GnutlsX509CrtImport 2 3 GNUTLS_X509_FMT_DER) < 0 \<and>
   ssl_open (env_answer (GnutlsX509CrtImport 2 3 GNUTLS_X509_FMT_DER) 0 (- 69))
       client_tls ''m'' [] =
     Some ((RC_OK, client_open),
       [Logit LOG_INFO ''%s, initiating HTTPS ...'' [ArgS ''m''], GnutlsInit,
        HttpGetRemoteName, GnutlsSessionSetPtr 1 ''example.com'',
        GnutlsServerNameSet 1 ''example.com'' 11, GnutlsPrioritySetDirect 1 ''NORMAL'',
        GnutlsCredentialsSet 1, TcpSetPort 443, TcpInit ''m'', GnutlsTransportSetPtr 1 7,
        GnutlsHandshake 1, GnutlsCertificateGetPeers 1, GnutlsX509CrtInit,
        GnutlsX509CrtImport 2 3 GNUTLS_X509_FMT_DER, GnutlsX509CrtGetDn 2 256,
        Logit LOG_INFO ''SSL server cert subject: %s'' [ArgS ''CN=example.com''],
        GnutlsX509CrtGetIssuerDn 2 256,
        Logit LOG_INFO ''SSL server cert issuer: %s'' [ArgS ''CN=Example CA''],
        GnutlsX509CrtDeinit 2])"
  by code_simp

text \<open>
  C8, amended. After a successful handshake, \<open>ssl_open\<close> asks for the peer
  certificate list. When the list is empty it returns 0: the absence of a
  certificate is no failure at this stage. When it is not empty, \<open>ssl_open\<close>
  returns \<open>HTTPS_FAILED_GETTING_CERT\<close> exactly when the X.509 parse context cannot
  be set up (\<open>gnutls_x509_crt_init\<close> does not return 0); otherwise it imports the
  leaf, ignores the result of the import, logs the subject and the issuer, and
  returns 0.
\<close>

theorem ssl_open_peer_cert_result:
  assumes "ssl_enabled client"
    and "ssl_open_session e client msg h = (Inr sn, c1, h1)"
    and "ssl_open_connect e c1 msg h1 = (None, c2, h2)"
    and "retried e (GnutlsHandshake (ssl c2)) h2 n"
    and "0 \<le> ret_int e (h2 @ replicate n (GnutlsHandshake (ssl c2))) (GnutlsHandshake (ssl c2))"
  shows
    "let h4 = ssl_get_info e c2 (h2 @ replicate (Suc n) (GnutlsHandshake (ssl c2)));
         peers = GnutlsCertificateGetPeers (ssl c2);
         cert_list = out_ptr e h4 peers;
         h5 = h4 @ [peers];
         cert = out_ptr e h5 GnutlsX509CrtInit;
         h6 = h5 @ [GnutlsX509CrtInit, GnutlsX509CrtImport cert cert_list GNUTLS_X509_FMT_DER];
         h7 = h6 @ [GnutlsX509CrtGetDn cert 256,
                    Logit LOG_INFO ''SSL server cert subject: %s''
                      [ArgS (out_str e h6 (GnutlsX509CrtGetDn cert 256))]]
     in (out_uint e h4 peers = 0 \<longrightarrow>
           ssl_open e client msg h = Some ((RC_OK, c2), h5)) \<and>
        (out_uint e h4 peers \<noteq> 0 \<longrightarrow>
           (ret_int e h5 GnutlsX509CrtInit \<noteq> 0 \<longrightarrow>
              ssl_open e client msg h =
                Some ((RC_HTTPS_FAILED_GETTING_CERT, c2), h5 @ [GnutlsX509CrtInit])) \<and>
           (ret_int e h5 GnutlsX509CrtInit = 0 \<longrightarrow>
              ssl_open e client msg h =
                Some ((RC_OK, c2),
                  h7 @ [GnutlsX509CrtGetIssuerDn cert 256,
                        Logit LOG_INFO ''SSL server cert issuer: %s''
                          [ArgS (out_str e h7 (GnutlsX509CrtGetIssuerDn cert 256))],
                        GnutlsX509CrtDeinit cert])) \<and>
           (map_option (fst \<circ> fst) (ssl_open e client msg h) = Some RC_HTTPS_FAILED_GETTING_CERT
              \<longleftrightarrow> ret_int e h5 GnutlsX509CrtInit \<noteq> 0))"
proof -
  let ?hs = "GnutlsHandshake (ssl c2)"
  let ?h3 = "h2 @ replicate (Suc n) ?hs"
  have loop: "retry_loop (call_int e ?hs) h2 = Some (ret_int e (h2 @ replicate n ?hs) ?hs, ?h3)"
    using assms(4) by (rule retry_call_int)
  have run: "ssl_open e client msg h =
      (case ssl_open_peer_cert e c2 (ssl_get_info e c2 ?h3) of (r, h') \<Rightarrow> Some ((r, c2), h'))"
    using assms(1,2,3,5) loop by (simp add: ssl_open_def)
  show ?thesis
    unfolding run
    by (simp add: ssl_open_peer_cert_def gnutls_certificate_get_peers_def
          gnutls_x509_crt_init_def call_int_def call_str_def call_void_def Let_def
          word_gt_0 del: replicate.simps)
qed

text \<open>With a parse context that cannot be set up (\<open>- 25\<close>, a memory error),
  \<open>ssl_open\<close> returns \<open>HTTPS_FAILED_GETTING_CERT\<close>.\<close>

theorem ssl_open_peer_cert_result_witness:
  "ssl_enabled client_tls \<and>
   retried (env_answer GnutlsX509CrtInit 0 (- 25)) (GnutlsHandshake 1)
     [Logit LOG_INFO ''%s, initiating HTTPS ...'' [ArgS ''m''], GnutlsInit,
      HttpGetRemoteName, GnutlsSessionSetPtr 1 ''example.com'',
      GnutlsServerNameSet 1 ''example.com'' 11, GnutlsPrioritySetDirect 1 ''NORMAL'',
      GnutlsCredentialsSet 1, TcpSetPort 443, TcpInit ''m'', GnutlsTransportSetPtr 1 7] 0 \<and>
   ssl_open (env_answer GnutlsX509CrtInit 0 (- 25)) client_tls ''m'' [] =
     Some ((RC_HTTPS_FAILED_GETTING_CERT, client_open),
       [Logit LOG_INFO ''%s, initiating HTTPS ...'' [ArgS ''m''], GnutlsInit,
        HttpGetRemoteName, GnutlsSessionSetPtr 1 ''example.com'',
        GnutlsServerNameSet 1 ''example.com'' 11, GnutlsPrioritySetDirect 1 ''NORMAL'',
        GnutlsCredentialsSet 1, TcpSetPort 443, TcpInit ''m'', GnutlsTransportSetPtr 1 7,
        GnutlsHandshake 1, GnutlsCertificateGetPeers 1, GnutlsX509CrtInit])"
proof -
  let ?env = "env_answer GnutlsX509CrtInit 0 (- 25)"
  let ?h1 = "[Logit LOG_INFO ''%s, initiating HTTPS ...'' [ArgS ''m''], GnutlsInit,
      HttpGetRemoteName, GnutlsSessionSetPtr 1 ''example.com'',
      GnutlsServerNameSet 1 ''example.com'' 11, GnutlsPrioritySetDirect 1 ''NORMAL'',
      GnutlsCredentialsSet 1]"
  let ?h2 = "?h1 @ [TcpSetPort 443, TcpInit ''m'', GnutlsTransportSetPtr 1 7]"
  let ?h4 = "?h2 @ [GnutlsHandshake 1]"
  have tls: "ssl_enabled client_tls" and session_ptr: "ssl client_open = 1"
    by (simp_all add: client_tls_def client_open_def)
  have session: "ssl_open_session ?env client_tls ''m'' [] =
      (Inr ''example.com'', client_tls\<lparr>ssl := 1\<rparr>, ?h1)"
    by code_simp
  have connect: "ssl_open_connect ?env (client_tls\<lparr>ssl := 1\<rparr>) ''m'' ?h1 = (None, client_open, ?h2)"
    by code_simp
  have once: "retried ?env (GnutlsHandshake (ssl client_open)) ?h2 0"
    unfolding session_ptr by code_simp
  have ok: "0 \<le> ret_int ?env (?h2 @ replicate 0 (GnutlsHandshake (ssl client_open)))
      (GnutlsHandshake (ssl client_open))"
    unfolding session_ptr by code_simp
  have info: "ssl_get_info ?env client_open (?h2 @ replicate (Suc 0) (GnutlsHandshake 1)) = ?h4"
    by code_simp
  have peers: "out_uint ?env ?h4 (GnutlsCertificateGetPeers 1) \<noteq> 0"
    by code_simp
  have init: "ret_int ?env (?h4 @ [GnutlsCertificateGetPeers 1]) GnutlsX509CrtInit \<noteq> 0"
    by code_simp
  have "ssl_open ?env client_tls ''m'' [] =
     Some ((RC_HTTPS_FAILED_GETTING_CERT, client_open),
       (?h4 @ [GnutlsCertificateGetPeers 1]) @ [GnutlsX509CrtInit])"
    using ssl_open_peer_cert_result [OF tls session connect once ok, unfolded session_ptr info Let_def,
        THEN conjunct2, rule_format, OF peers, THEN conjunct1, rule_format, OF init] .
  with tls once show ?thesis
    unfolding session_ptr by simp
qed


text \<open>
  C9. When \<open>ssl_open\<close> on the TLS path returns \<open>HTTPS_SNI_ERROR\<close> or
  \<open>HTTPS_INVALID_REQUEST\<close>, it has made no call to the TCP transport, neither
  \<open>tcp_set_port\<close> nor \<open>tcp_init\<close>: the socket structure of the handle is the one
  before the call, and no connection was opened.
\<close>

theorem ssl_open_early_return_frame:
  assumes "ssl_enabled client"
    and "ssl_open e client msg h = Some ((rc, client'), h')"
    and "rc = RC_HTTPS_SNI_ERROR \<or> rc = RC_HTTPS_INVALID_REQUEST"
  shows "tcp client' = tcp client \<and> (\<exists>t. h' = h @ t \<and> filter is_tcp_call t = [])"
proof -
  obtain res c1 h1 where session: "ssl_open_session e client msg h = (res, c1, h1)"
    by (cases "ssl_open_session e client msg h") auto
  show ?thesis
  proof (cases res)
    case (Inl r)
    with assms(1,2) session have "client' = c1" "h' = h1"
      by (simp_all add: ssl_open_def)
    with ssl_open_session_frame(1,2) [OF session] show ?thesis by simp
  next
    case (Inr sn)
    note session = session [unfolded Inr]
    obtain res2 c2 h2 where connect: "ssl_open_connect e c1 msg h1 = (res2, c2, h2)"
      by (cases "ssl_open_connect e c1 msg h1") auto
    show ?thesis
    proof (cases res2)
      case (Some r)
      with assms(1,2) session connect have "rc = r"
        by (simp add: ssl_open_def)
      moreover from connect Some have "r = tcp_rc (ret_tcp e (h1 @ [TcpSetPort 443]) (TcpInit msg))"
        unfolding ssl_open_connect_result by (simp add: Let_def split: if_splits)
      ultimately show ?thesis
        using assms(3) tcp_rc_not_https by metis
    next
      case None
      from ssl_open_after_connect(2) [OF assms(1) session connect [unfolded None] assms(2)] assms(3)
      show ?thesis by auto
    qed
  qed
qed

text \<open>A server name that the library refuses, and a priority string that it
  refuses: each time \<open>ssl_open\<close> returns before any call to the TCP transport.\<close>

theorem ssl_open_early_return_frame_witness:
  "ssl_enabled client_tls \<and>
   ssl_open (env_answer (GnutlsServerNameSet 1 ''example.com'' 11) 0 (- 50)) client_tls ''m'' [] =
     Some ((RC_HTTPS_SNI_ERROR, client_tls\<lparr>ssl := 1\<rparr>),
       [Logit LOG_INFO ''%s, initiating HTTPS ...'' [ArgS ''m''], GnutlsInit,
        HttpGetRemoteName, GnutlsSessionSetPtr 1 ''example.com'',
        GnutlsServerNameSet 1 ''example.com'' 11]) \<and>
   ssl_open (env_answer (GnutlsPrioritySetDirect 1 ''NORMAL'') 0 (- 50)) client_tls ''m'' [] =
     Some ((RC_HTTPS_INVALID_REQUEST, client_tls\<lparr>ssl := 1\<rparr>),
       [Logit LOG_INFO ''%s, initiating HTTPS ...'' [ArgS ''m''], GnutlsInit,
        HttpGetRemoteName, GnutlsSessionSetPtr 1 ''example.com'',
        GnutlsServerNameSet 1 ''example.com'' 11, GnutlsPrioritySetDirect 1 ''NORMAL'',
        Logit LOG_ERR ''Syntax error at: %s'' [ArgS []]]) \<and>
   tcp (client_tls\<lparr>ssl := 1\<rparr>) = tcp client_tls"
proof -
  have tls: "ssl_enabled client_tls"
    by (simp add: client_tls_def)
  have sni: "ssl_open (env_answer (GnutlsServerNameSet 1 ''example.com'' 11) 0 (- 50))
      client_tls ''m'' [] =
     Some ((RC_HTTPS_SNI_ERROR, client_tls\<lparr>ssl := 1\<rparr>),
       [Logit LOG_INFO ''%s, initiating HTTPS ...'' [ArgS ''m''], GnutlsInit,
        HttpGetRemoteName, GnutlsSessionSetPtr 1 ''example.com'',
        GnutlsServerNameSet 1 ''example.com'' 11])"
    by code_simp
  have prio: "ssl_open (env_answer (GnutlsPrioritySetDirect 1 ''NORMAL'') 0 (- 50))
      client_tls ''m'' [] =
     Some ((RC_HTTPS_INVALID_REQUEST, client_tls\<lparr>ssl := 1\<rparr>),
       [Logit LOG_INFO ''%s, initiating HTTPS ...'' [ArgS ''m''], GnutlsInit,
        HttpGetRemoteName, GnutlsSessionSetPtr 1 ''example.com'',
        GnutlsServerNameSet 1 ''example.com'' 11, GnutlsPrioritySetDirect 1 ''NORMAL'',
        Logit LOG_ERR ''Syntax error at: %s'' [ArgS []]])"
    by code_simp
  from ssl_open_early_return_frame [OF tls sni] ssl_open_early_return_frame [OF tls prio]
  have "tcp (client_tls\<lparr>ssl := 1\<rparr>) = tcp client_tls"
    by blast
  with tls sni prio show ?thesis by blast
qed


text \<open>
  C10. On the TLS path \<open>ssl_recv\<close> writes \<open>*recv_len\<close> only when it succeeds:
  whenever it returns \<open>HTTPS_RECV_ERROR\<close>, after the first read or after the
  second, the content of \<open>*recv_len\<close> is the one before the call.
\<close>

theorem ssl_recv_error_keeps_recv_len:
  assumes "ssl_enabled client"
    and "ssl_recv e client buf buf_len recv_len h =
           Some ((RC_HTTPS_RECV_ERROR, client', buf', recv_len'), h')"
  shows "recv_len' = recv_len"
  using assms
  by (auto simp: ssl_recv_def split: option.splits prod.splits if_splits)

text \<open>The first read fails at once; or the first read brings five bytes and the
  second fails after one retry. \<open>*recv_len\<close> was 77 and stays 77.\<close>

theorem ssl_recv_error_keeps_recv_len_witness:
  "ssl_enabled client_open \<and>
   (\<exists>c b t. ssl_recv (env_answer (GnutlsRecordRecv 1 0 8) 0 (- 10)) client_open ''........'' 8 77 [] =
        Some ((RC_HTTPS_RECV_ERROR, c, b, 77), t)) \<and>
   (\<exists>c b t. ssl_recv (env_answer (GnutlsRecordRecv 1 5 3) 1 (- 10)) client_open ''........'' 8 77 [] =
        Some ((RC_HTTPS_RECV_ERROR, c, b, 77), t))"
proof -
  have tls: "ssl_enabled client_open"
    by (simp add: client_open_def)
  have "case ssl_recv (env_answer (GnutlsRecordRecv 1 0 8) 0 (- 10)) client_open ''........'' 8 77 []
        of None \<Rightarrow> False | Some ((r, x), t) \<Rightarrow> r = RC_HTTPS_RECV_ERROR"
    by code_simp
  then obtain c b l t where first:
    "ssl_recv (env_answer (GnutlsRecordRecv 1 0 8) 0 (- 10)) client_open ''........'' 8 77 [] =
       Some ((RC_HTTPS_RECV_ERROR, c, b, l), t)"
    by (auto split: option.splits prod.splits)
  have "case ssl_recv (env_answer (GnutlsRecordRecv 1 5 3) 1 (- 10)) client_open ''........'' 8 77 []
        of None \<Rightarrow> False | Some ((r, x), t) \<Rightarrow> r = RC_HTTPS_RECV_ERROR"
    by code_simp
  then obtain c2 b2 l2 t2 where second:
    "ssl_recv (env_answer (GnutlsRecordRecv 1 5 3) 1 (- 10)) client_open ''........'' 8 77 [] =
       Some ((RC_HTTPS_RECV_ERROR, c2, b2, l2), t2)"
    by (auto split: option.splits prod.splits)
  from ssl_recv_error_keeps_recv_len [OF tls first] ssl_recv_error_keeps_recv_len [OF tls second]
    first second tls
  show ?thesis by blast
qed


end
